theory Spec2Isabelle
  imports Complex_Main
begin

section \<open>Python list and string primitives used by the sources\<close>

text \<open>
  Python's slice \<^verbatim>\<open>xs[start:]\<close>: a negative start counts from the end and is clamped
  at the front of the list, a non-negative start drops that many elements.  The sources
  only use the form \<^verbatim>\<open>xs[-m:]\<close>, that is \<open>py_slice_from (- m) xs\<close>; note that
  \<^verbatim>\<open>xs[-0:]\<close> is \<^verbatim>\<open>xs[0:]\<close>, the whole list.
\<close>

definition py_slice_from :: "int \<Rightarrow> 'a list \<Rightarrow> 'a list" where
  "py_slice_from start xs =
     (if start < 0 then drop (nat (int (length xs) + start)) xs
      else drop (nat start) xs)"

text \<open>
  \<^verbatim>\<open>str.isspace\<close> on one character.  Strings are modelled as \<open>string\<close>, so a
  character is a code point below 256; these are the white-space characters among them.
\<close>

definition py_isspace :: "char \<Rightarrow> bool" where
  "py_isspace c =
     (c \<in> set [CHR 0x09, CHR 0x0A, CHR 0x0B, CHR 0x0C, CHR 0x0D, CHR 0x1C, CHR 0x1D,
                CHR 0x1E, CHR 0x1F, CHR 0x20, CHR 0x85, CHR 0xA0])"

text \<open>\<^verbatim>\<open>str.strip()\<close>: white space removed at both ends.\<close>

definition strip :: "string \<Rightarrow> string" where
  "strip s = rev (dropWhile py_isspace (rev (dropWhile py_isspace s)))"

text \<open>\<^verbatim>\<open>sep.join(xs)\<close>.\<close>

fun py_join :: "string \<Rightarrow> string list \<Rightarrow> string" where
  "py_join sep [] = []"
| "py_join sep [x] = x"
| "py_join sep (x # y # ys) = x @ sep @ py_join sep (y # ys)"

text \<open>\<^verbatim>\<open>needle in hay\<close> on strings.\<close>

fun contains_str :: "string \<Rightarrow> string \<Rightarrow> bool" where
  "contains_str [] needle = (needle = [])"
| "contains_str (c # cs) needle =
     (take (length needle) (c # cs) = needle \<or> contains_str cs needle)"

text \<open>\<^verbatim>\<open>str(n)\<close> for an integer: decimal digits, a minus sign when negative.\<close>

definition digit_char :: "nat \<Rightarrow> char" where
  "digit_char d = char_of (48 + d)"

fun str_nat :: "nat \<Rightarrow> string" where
  "str_nat n = (if n < 10 then [digit_char n] else str_nat (n div 10) @ [digit_char (n mod 10)])"

declare str_nat.simps [simp del]

definition str_int :: "int \<Rightarrow> string" where
  "str_int i = (if i < 0 then CHR ''-'' # str_nat (nat (- i)) else str_nat (nat i))"

text \<open>
  \<^verbatim>\<open>int(s)\<close> on a string, base ten: white space around the literal is ignored, one
  sign is allowed, the digits may be grouped by single underscores, and at least one digit
  is required.  \<open>None\<close> stands for the \<^verbatim>\<open>ValueError\<close> that Python raises on anything
  else, which includes a literal of more than 4300 digits (the interpreter's default limit
  for the conversion).
\<close>

definition is_digit :: "char \<Rightarrow> bool" where
  "is_digit c = (48 \<le> (of_char c :: nat) \<and> (of_char c :: nat) \<le> 57)"

fun literal_digits :: "string \<Rightarrow> string option" where
  "literal_digits [] = None"
| "literal_digits [c] = (if is_digit c then Some [c] else None)"
| "literal_digits (c # d # cs) =
     (if is_digit c
      then (if d = CHR ''_'' then map_option ((#) c) (literal_digits cs)
            else map_option ((#) c) (literal_digits (d # cs)))
      else None)"

definition digits_value :: "string \<Rightarrow> int" where
  "digits_value ds = foldl (\<lambda>acc c. 10 * acc + (int (of_char c) - 48)) 0 ds"

definition unsigned_literal :: "string \<Rightarrow> int option" where
  "unsigned_literal s =
     (case literal_digits s of
        None \<Rightarrow> None
      | Some ds \<Rightarrow> if length ds > 4300 then None else Some (digits_value ds))"

definition py_int :: "string \<Rightarrow> int option" where
  "py_int s =
     (case strip s of
        [] \<Rightarrow> None
      | c # cs \<Rightarrow>
          if c = CHR ''-'' then map_option uminus (unsigned_literal cs)
          else if c = CHR ''+'' then unsigned_literal cs
          else unsigned_literal (c # cs))"

section \<open>Exceptions\<close>

text \<open>
  The exception classes that the modelled functions raise or let through.
  \<^verbatim>\<open>EmbeddingServiceException\<close> carries its message, its \<^verbatim>\<open>status_code\<close> and the
  \<^verbatim>\<open>original_exception\<close>; \<^verbatim>\<open>ProviderError\<close> and \<^verbatim>\<open>DatabaseError\<close> stand for
  whatever the OpenAI client, respectively the database driver, raises.
\<close>

datatype exn =
    ValueError
  | TypeError
  | AttributeError
  | IndexError
  | StaleDataError
  | ConcurrencyException string
  | EmbeddingServiceException string int "exn option"
  | ProviderError string
  | DatabaseError string
  | OtherError string

section \<open>The in-memory chat history (chat\_history\_repository\_impl.py)\<close>

text \<open>
  A message is a dictionary with the keys \<^verbatim>\<open>role\<close> and \<^verbatim>\<open>content\<close>; a field is
  \<open>None\<close> when the key is missing (what \<^verbatim>\<open>m.get("role")\<close> returns).
\<close>

record message =
  role :: "string option"
  content :: "string option"

text \<open>
  \<^verbatim>\<open>MemoryChatHistoryRepository\<close>: the dictionary \<^verbatim>\<open>_store\<close> and the bound
  \<^verbatim>\<open>_max\<close>.  Every method runs under the lock, so each is one atomic step on
  this state.
\<close>

record chat_history =
  store :: "string \<rightharpoonup> message list"
  max_messages :: int

definition new_history :: "int \<Rightarrow> chat_history" where
  "new_history m = \<lparr>store = Map.empty, max_messages = m\<rparr>"

text \<open>
  \<^verbatim>\<open>get\<close> returns \<^verbatim>\<open>list(self._store.get(key, []))\<close>: a copy of the entry, or the
  empty list; the repository is returned beside the result to show what the call leaves
  behind.
\<close>

definition get_history :: "chat_history \<Rightarrow> string \<Rightarrow> message list \<times> chat_history" where
  "get_history h key = ((case store h key of None \<Rightarrow> [] | Some ms \<Rightarrow> ms), h)"

text \<open>\<^verbatim>\<open>set\<close>: \<^verbatim>\<open>self._store[key] = list(messages)[-self._max:]\<close>.\<close>

definition set_history :: "chat_history \<Rightarrow> string \<Rightarrow> message list \<Rightarrow> chat_history" where
  "set_history h key messages =
     h\<lparr>store := (store h)(key \<mapsto> py_slice_from (- max_messages h) messages)\<rparr>"

text \<open>
  \<^verbatim>\<open>append\<close>: \<^verbatim>\<open>setdefault\<close> creates the entry when missing, the message is added
  at the end of the stored list, and the entry is replaced by its slice only when its
  length exceeds the bound.
\<close>

definition append_history :: "chat_history \<Rightarrow> string \<Rightarrow> string \<Rightarrow> string \<Rightarrow> chat_history" where
  "append_history h key r c =
     (let hist = (case store h key of None \<Rightarrow> [] | Some ms \<Rightarrow> ms)
                 @ [\<lparr>role = Some r, content = Some c\<rparr>]
      in if int (length hist) > max_messages h
         then h\<lparr>store := (store h)(key \<mapsto> py_slice_from (- max_messages h) hist)\<rparr>
         else h\<lparr>store := (store h)(key \<mapsto> hist)\<rparr>)"

text \<open>A call of one of the three methods, and a sequence of calls run from left to right.\<close>

datatype history_call =
    Get string
  | Set string "message list"
  | Append string string string

fun run_call :: "chat_history \<Rightarrow> history_call \<Rightarrow> chat_history" where
  "run_call h (Get key) = snd (get_history h key)"
| "run_call h (Set key messages) = set_history h key messages"
| "run_call h (Append key r c) = append_history h key r c"

definition run_calls :: "chat_history \<Rightarrow> history_call list \<Rightarrow> chat_history" where
  "run_calls h calls = foldl run_call h calls"

fun writes_key :: "string \<Rightarrow> history_call \<Rightarrow> bool" where
  "writes_key k (Get key) = False"
| "writes_key k (Set key messages) = (key = k)"
| "writes_key k (Append key r c) = (key = k)"

text \<open>
  The message that \<^verbatim>\<open>append\<close> stores for a role and a content, a run of
  \<^verbatim>\<open>append\<close> calls on one key, and the bound that the docstring of the constructor
  promises ("maximum number of messages to retain per key").
\<close>

definition make_message :: "string \<times> string \<Rightarrow> message" where
  "make_message rc = \<lparr>role = Some (fst rc), content = Some (snd rc)\<rparr>"

definition append_all :: "chat_history \<Rightarrow> string \<Rightarrow> (string \<times> string) list \<Rightarrow> chat_history" where
  "append_all h key rcs = foldl (\<lambda>h' rc. append_history h' key (fst rc) (snd rc)) h rcs"

definition within_bound :: "chat_history \<Rightarrow> bool" where
  "within_bound h = (\<forall>k ms. store h k = Some ms \<longrightarrow> int (length ms) \<le> max_messages h)"

section \<open>Transactions and retries (transaction\_util.py)\<close>

text \<open>
  The request-scoped SQLAlchemy session, as far as the wrappers use it:
  \<open>in_transaction\<close> is \<^verbatim>\<open>session.get_transaction() is not None\<close>, \<open>outcomes\<close>
  lists in order what happened to the session's transactions, and \<open>pending_stale\<close>
  says that the unit of work holds a write whose version token is out of date, which the
  flush at commit reports as \<^verbatim>\<open>StaleDataError\<close>.
\<close>

datatype txn_outcome = Began | Committed | RolledBack

record session =
  in_transaction :: bool
  outcomes :: "txn_outcome list"
  pending_stale :: bool

text \<open>\<^verbatim>\<open>session.begin()\<close>, entered when no transaction is active.\<close>

definition begin_txn :: "session \<Rightarrow> session" where
  "begin_txn s = s\<lparr>in_transaction := True, outcomes := outcomes s @ [Began]\<rparr>"

text \<open>
  \<^verbatim>\<open>session.rollback()\<close>: the active transaction is rolled back and its pending
  writes are discarded; with no transaction active the call does nothing.
\<close>

definition rollback :: "session \<Rightarrow> session" where
  "rollback s =
     (if in_transaction s
      then s\<lparr>in_transaction := False, outcomes := outcomes s @ [RolledBack],
               pending_stale := False\<rparr>
      else s)"

text \<open>
  Leaving \<^verbatim>\<open>with session.begin():\<close>.  After a body that returned, the transaction
  (when still active) is committed; a commit whose flush finds a stale write rolls the
  transaction back and raises \<^verbatim>\<open>StaleDataError\<close>.  After a body that raised, the
  transaction is rolled back and the exception goes on.
\<close>

definition exit_begin_block :: "(exn + 'a) \<times> session \<Rightarrow> (exn + 'a) \<times> session" where
  "exit_begin_block rs =
     (case rs of
        (Inr result, s) \<Rightarrow>
          if \<not> in_transaction s then (Inr result, s)
          else if pending_stale s then (Inl StaleDataError, rollback s)
          else (Inr result, s\<lparr>in_transaction := False, outcomes := outcomes s @ [Committed]\<rparr>)
      | (Inl e, s) \<Rightarrow> (Inl e, rollback s))"

text \<open>
  \<^verbatim>\<open>transactional(fn)\<close>, called on the current session.  The wrapped function
  receives the session and returns a result or raises, leaving the session in some state.
  \<open>method_name\<close> is \<^verbatim>\<open>fn.__name__\<close>, used in the message of the conversion.
\<close>

definition conflict_message :: "string \<Rightarrow> string" where
  "conflict_message method_name =
     ''Resource was updated by another transaction in method '' @ method_name @ ''.''"

definition transactional ::
  "string \<Rightarrow> (session \<Rightarrow> (exn + 'a) \<times> session) \<Rightarrow> session \<Rightarrow> (exn + 'a) \<times> session" where
  "transactional method_name fn session =
     (let outermost = \<not> in_transaction session;
          ctx_entered = (if outermost then begin_txn session else session);
          body = fn ctx_entered;
          left = (if outermost then exit_begin_block body else body)
      in case left of
           (Inr result, s) \<Rightarrow> (Inr result, s)
         | (Inl e, s) \<Rightarrow>
             if e = StaleDataError
             then (if outermost
                   then (Inl (ConcurrencyException (conflict_message method_name)), rollback s)
                   else (Inl StaleDataError, s))
             else (if outermost then (Inl e, rollback s) else (Inl e, s)))"


text \<open>
  \<^verbatim>\<open>retry_conflicts(max_retries, backoff_sec)(fn)\<close>.  The loop
  \<^verbatim>\<open>for attempt in range(1, max_retries + 1)\<close> is a recursion over the list of attempt
  numbers.  The result is \<open>Some\<close> of what \<^verbatim>\<open>fn\<close> returned, or \<open>None\<close> when the
  loop ends without an attempt (Python then returns \<^verbatim>\<open>None\<close>).  An exception that
  \<^verbatim>\<open>sleep\<close> raises inside the handler leaves the wrapper.  Beside the session the
  wrapper's own actions are returned in order: each call of \<^verbatim>\<open>fn\<close>, each call of
  \<^verbatim>\<open>rollback\<close> and each \<^verbatim>\<open>sleep\<close> that returned, with its duration.
\<close>

datatype 'f retry_action = Invoked int | RollbackCalled | Slept 'f








text \<open>The number of times the wrapped function was called.\<close>

fun invocations :: "'f retry_action list \<Rightarrow> nat" where
  "invocations [] = 0"
| "invocations (Invoked a # as) = Suc (invocations as)"
| "invocations (a # as) = invocations as"

text \<open>A session with no transaction, for the examples.\<close>

definition idle_session :: session where
  "idle_session = \<lparr>in_transaction = False, outcomes = [], pending_stale = False\<rparr>"




section \<open>Events and the similarity search (event.py, format\_event\_util.py, event\_repository\_impl.py)\<close>

text \<open>
  The columns of a user and of an event that the modelled code reads.  A nullable column
  is an option; \<open>datetime\<close> holds the text that \<^verbatim>\<open>datetime.isoformat()\<close> gives, and
  the type \<open>'v\<close> of an embedding is the database's vector type.
\<close>

record user =
  user_id :: int
  name :: string
  surname :: string
  email :: string

record 'v event =
  title :: "string option"
  description :: "string option"
  location :: "string option"
  category :: "string option"
  datetime :: "string option"
  organizer :: "user option"
  embedding :: "'v option"

text \<open>\<^verbatim>\<open>x or ""\<close> for an optional string.\<close>

definition or_empty :: "string option \<Rightarrow> string" where
  "or_empty x = (case x of None \<Rightarrow> [] | Some s \<Rightarrow> s)"

text \<open>\<^verbatim>\<open>User.__repr__\<close>, which \<^verbatim>\<open>str(event.organizer)\<close> calls.\<close>

definition user_repr :: "user \<Rightarrow> string" where
  "user_repr u =
     ''<User '' @ str_int (user_id u) @ '' - '' @ name u @ '' '' @ surname u @ '' - ''
       @ email u @ ''>''"

definition format_event :: "'v event \<Rightarrow> string" where
  "format_event e =
     py_join '' | ''
       [or_empty (title e), or_empty (description e), or_empty (location e),
        or_empty (category e), or_empty (datetime e),
        (case organizer e of None \<Rightarrow> [] | Some u \<Rightarrow> user_repr u)]"

text \<open>
  \<^verbatim>\<open>search_by_embedding\<close> runs
  \<^verbatim>\<open>SELECT e.* FROM events e WHERE e.embedding IS NOT NULL ORDER BY e.embedding <=> :q LIMIT :k\<close>
  on the table of events, after setting \<^verbatim>\<open>ivfflat.probes\<close> when \<open>probes\<close> is given.
  \<open>distance\<close> is the operator \<^verbatim>\<open><=>\<close> of the database.  \<open>probed probes q e\<close> says
  that the scan of the approximate index visits the row \<open>e\<close> for the query vector \<open>q\<close>
  under that setting (an exact scan visits every row).  The visited rows that have an
  embedding are ordered by their distance to the query vector and the first \<open>k\<close> are
  returned.  The bound \<open>k\<close> reaches the database as it is: \<^verbatim>\<open>LIMIT\<close> takes a 64-bit
  integer, so a value outside that range is rejected (\<^verbatim>\<open>bigint out of range\<close>), and
  PostgreSQL rejects a negative \<^verbatim>\<open>LIMIT\<close>; the driver raises in both cases.
\<close>

definition search_by_embedding ::
  "('v \<Rightarrow> 'v \<Rightarrow> 'd::linorder) \<Rightarrow> (int option \<Rightarrow> 'v \<Rightarrow> 'v event \<Rightarrow> bool) \<Rightarrow> 'v event list
     \<Rightarrow> 'v \<Rightarrow> int \<Rightarrow> int option \<Rightarrow> exn + 'v event list" where
  "search_by_embedding distance probed events query_vector k probes =
     (if k < - (2 ^ 63) \<or> 2 ^ 63 \<le> k then Inl (DatabaseError ''bigint out of range'')
      else if k < 0 then Inl (DatabaseError ''LIMIT must not be negative'')
      else Inr (take (nat k) (map snd (sort_key fst
             (List.map_filter
                (\<lambda>e. if probed probes query_vector e
                     then map_option (\<lambda>v. (distance v query_vector, e)) (embedding e)
                     else None)
                events)))))"

text \<open>A table of three events with embeddings on the integer line, for the examples.\<close>

definition plain_event :: "string \<Rightarrow> int option \<Rightarrow> int event" where
  "plain_event t v =
     \<lparr>title = Some t, description = None, location = None, category = None,
      datetime = Some ''2025-08-26T19:00:00'', organizer = None, embedding = v\<rparr>"

definition sample_events :: "int event list" where
  "sample_events = [plain_event ''Party'' (Some 9), plain_event ''Draft'' None,
                    plain_event ''Meetup'' (Some 2)]"

definition line_distance :: "int \<Rightarrow> int \<Rightarrow> int" where
  "line_distance a b = \<bar>a - b\<bar>"

text \<open>A scan that visits every row, for the examples.\<close>

definition every_row :: "int option \<Rightarrow> int \<Rightarrow> int event \<Rightarrow> bool" where
  "every_row probes q e = True"

section \<open>The embedding service (embedding\_service\_impl.py)\<close>

text \<open>
  The numpy operations that \<^verbatim>\<open>create_embedding\<close> uses, on the type \<open>'p\<close> of the
  elements of the provider's payload, the type \<open>'g\<close> of float32 array elements and the
  type \<open>'f\<close> of Python floats: \<^verbatim>\<open>np.array(emb, dtype=np.float32)\<close>, which raises on
  an element that is not a number, \<^verbatim>\<open>numpy.linalg.norm\<close>, the division of an array by
  a scalar, and \<^verbatim>\<open>tolist\<close>.
\<close>

record ('p, 'g, 'f) numpy =
  np_array :: "'p list \<Rightarrow> exn + 'g list"
  np_norm :: "'g list \<Rightarrow> 'g"
  np_divide :: "'g list \<Rightarrow> 'g \<Rightarrow> 'g list"
  np_tolist :: "'g list \<Rightarrow> 'f list"

text \<open>
  \<^verbatim>\<open>create_embedding\<close>.  \<open>vector_dim\<close> is \<^verbatim>\<open>Config.UNIFIED_VECTOR_DIM\<close>; \<open>create\<close> is
  \<^verbatim>\<open>client.embeddings.create\<close>, given the text and the dimension: it raises, or returns
  the items of \<^verbatim>\<open>resp.data\<close>, each with its \<^verbatim>\<open>embedding\<close> (a list, or \<open>None\<close>).
  The request and the read of \<^verbatim>\<open>resp.data[0].embedding\<close> are guarded by
  \<^verbatim>\<open>try\<close>; \<^verbatim>\<open>len(emb)\<close> and \<^verbatim>\<open>np.array\<close> are not, so \<^verbatim>\<open>len(None)\<close> raises
  \<^verbatim>\<open>TypeError\<close> and an exception of \<^verbatim>\<open>np.array\<close> goes on as it is.  Every
  \<^verbatim>\<open>raise\<close> of the source builds an \<^verbatim>\<open>EmbeddingServiceException\<close> without a status
  code, so with the default 500.
\<close>

definition create_embedding ::
  "int \<Rightarrow> ('p, 'g::zero, 'f) numpy \<Rightarrow> (string \<Rightarrow> int \<Rightarrow> exn + 'p list option list) \<Rightarrow> string
     \<Rightarrow> exn + 'f list" where
  "create_embedding vector_dim np create text =
     (if strip text = []
      then Inl (EmbeddingServiceException ''Input text must be a non-empty string.'' 500 None)
      else
        (case create text vector_dim of
           Inl e \<Rightarrow>
             Inl (EmbeddingServiceException ''OpenAI embedding request failed.'' 500 (Some e))
         | Inr [] \<Rightarrow>
             Inl (EmbeddingServiceException
                    ''OpenAI returned an unexpected embedding payload.'' 500 (Some IndexError))
         | Inr (None # others) \<Rightarrow> Inl TypeError
         | Inr (Some emb # others) \<Rightarrow>
             if int (length emb) \<noteq> vector_dim
             then Inl (EmbeddingServiceException
                         (''Expected '' @ str_int vector_dim @ ''-dim embedding, got ''
                            @ str_nat (length emb)) 500 None)
             else
               (case np_array np emb of
                  Inl e \<Rightarrow> Inl e
                | Inr vec \<Rightarrow>
                    (let norm_val = np_norm np vec
                     in if norm_val = 0
                        then Inl (EmbeddingServiceException
                                    ''Embedding vector has zero norm, cannot normalize.'' 500 None)
                        else Inr (np_tolist np (np_divide np vec norm_val))))))"

text \<open>
  The class of an exception (\<^verbatim>\<open>type(e).__name__\<close>) and the error code and HTTP status
  that the handlers of global\_error\_handler.py answer with: one handler for
  \<^verbatim>\<open>ConcurrencyException\<close>, one for \<^verbatim>\<open>EmbeddingServiceException\<close> that uses its
  \<^verbatim>\<open>status_code\<close>, and the fallback for the other classes modelled here.
\<close>

fun class_name :: "exn \<Rightarrow> string" where
  "class_name ValueError = ''ValueError''"
| "class_name TypeError = ''TypeError''"
| "class_name AttributeError = ''AttributeError''"
| "class_name IndexError = ''IndexError''"
| "class_name StaleDataError = ''StaleDataError''"
| "class_name (ConcurrencyException msg) = ''ConcurrencyException''"
| "class_name (EmbeddingServiceException msg status orig) = ''EmbeddingServiceException''"
| "class_name (ProviderError msg) = ''ProviderError''"
| "class_name (DatabaseError msg) = ''DatabaseError''"
| "class_name (OtherError msg) = ''OtherError''"

fun error_response :: "exn \<Rightarrow> string \<times> int" where
  "error_response (ConcurrencyException msg) = (''CONCURRENT_UPDATE'', 409)"
| "error_response (EmbeddingServiceException msg status orig) = (''EMBEDDING_SERVICE_ERROR'', status)"
| "error_response e = (''INTERNAL_SERVER_ERROR'', 500)"

text \<open>
  Exact real arithmetic in the place of numpy's float32 operations: what the code would
  compute without rounding and without a bound on the exponent.
\<close>

definition real_numpy :: "(real, real, real) numpy" where
  "real_numpy =
     \<lparr>np_array = (\<lambda>xs. Inr xs),
      np_norm = (\<lambda>v. sqrt (sum_list (map (\<lambda>x. x * x) v))),
      np_divide = (\<lambda>v n. map (\<lambda>x. x / n) v),
      np_tolist = (\<lambda>v. v)\<rparr>"

text \<open>
  The float32 arithmetic of numpy.  A float is a finite rational, an infinity or NaN
  (the sign of a zero is not kept).  \<open>round24\<close> rounds a rational to the nearest value
  with a significand of 24 bits, ties to even, with the exponent bounded below as for
  float32; \<open>to_float32\<close> then overflows to an infinity beyond the largest finite
  float32.  Each operation rounds its exact result.  \<open>ilog2 n\<close> is the position of the
  highest bit of \<open>n\<close>.
\<close>

datatype flt = Finite rat | PosInf | NegInf | NaN

instantiation flt :: zero
begin

definition zero_flt :: flt where
  "zero_flt = Finite 0"

instance ..

end

definition pow2 :: "int \<Rightarrow> rat" where
  "pow2 e = (if 0 \<le> e then 2 ^ nat e else 1 / 2 ^ nat (- e))"

function ilog2 :: "int \<Rightarrow> int" where
  "ilog2 n = (if n < 2 then 0 else 1 + ilog2 (n div 2))"
  by pat_completeness auto
termination
  by (relation "measure nat") auto

declare ilog2.simps [simp del]

definition floor_log2 :: "rat \<Rightarrow> int" where
  "floor_log2 x =
     (let e = ilog2 (fst (quotient_of x)) - ilog2 (snd (quotient_of x))
      in if pow2 e \<le> x then e else e - 1)"

definition round_half_even :: "rat \<Rightarrow> int" where
  "round_half_even q =
     (let n = \<lfloor>q\<rfloor>; r = q - of_int n
      in if r < 1 / 2 then n else if 1 / 2 < r then n + 1 else if even n then n else n + 1)"

definition round24 :: "rat \<Rightarrow> rat" where
  "round24 x =
     (if x = 0 then 0
      else (let u = pow2 (max (floor_log2 \<bar>x\<bar>) (- 126) - 23)
            in sgn x * of_int (round_half_even (\<bar>x\<bar> / u)) * u))"

definition float32_max :: rat where
  "float32_max = (2 ^ 24 - 1) * 2 ^ 104"

definition to_float32 :: "rat \<Rightarrow> flt" where
  "to_float32 x =
     (let y = round24 x
      in if float32_max < y then PosInf else if y < - float32_max then NegInf else Finite y)"

fun sign_of :: "flt \<Rightarrow> int" where
  "sign_of (Finite x) = (if x < 0 then - 1 else if x = 0 then 0 else 1)"
| "sign_of PosInf = 1"
| "sign_of NegInf = - 1"
| "sign_of NaN = 0"

definition signed_inf :: "int \<Rightarrow> flt" where
  "signed_inf sg = (if 0 < sg then PosInf else if sg < 0 then NegInf else NaN)"

fun f32_mul :: "flt \<Rightarrow> flt \<Rightarrow> flt" where
  "f32_mul NaN b = NaN"
| "f32_mul a NaN = NaN"
| "f32_mul (Finite x) (Finite y) = to_float32 (x * y)"
| "f32_mul a b = signed_inf (sign_of a * sign_of b)"

fun f32_add :: "flt \<Rightarrow> flt \<Rightarrow> flt" where
  "f32_add NaN b = NaN"
| "f32_add a NaN = NaN"
| "f32_add (Finite x) (Finite y) = to_float32 (x + y)"
| "f32_add PosInf NegInf = NaN"
| "f32_add NegInf PosInf = NaN"
| "f32_add PosInf b = PosInf"
| "f32_add a PosInf = PosInf"
| "f32_add a b = NegInf"

fun f32_div :: "flt \<Rightarrow> flt \<Rightarrow> flt" where
  "f32_div NaN b = NaN"
| "f32_div a NaN = NaN"
| "f32_div (Finite x) (Finite y) =
     (if y = 0 then signed_inf (sign_of (Finite x)) else to_float32 (x / y))"
| "f32_div (Finite x) b = Finite 0"
| "f32_div a (Finite y) = signed_inf (sign_of a * (if y < 0 then - 1 else 1))"
| "f32_div a b = NaN"

text \<open>
  The square root of a float32, given the correctly rounded root \<open>rt\<close> of a
  non-negative finite value.
\<close>

fun f32_sqrt :: "(rat \<Rightarrow> rat) \<Rightarrow> flt \<Rightarrow> flt" where
  "f32_sqrt rt (Finite x) = (if x < 0 then NaN else Finite (rt x))"
| "f32_sqrt rt PosInf = PosInf"
| "f32_sqrt rt a = NaN"

text \<open>
  numpy on float32: the conversion of Python floats rounds each element, the norm is the
  root of the dot product of the array with itself (products and sums rounded one by one,
  from left to right), the division is element by element, and \<^verbatim>\<open>tolist\<close> gives the
  same values as Python floats.
\<close>

fun as_float32 :: "flt \<Rightarrow> flt" where
  "as_float32 (Finite x) = to_float32 x"
| "as_float32 a = a"

definition float32_numpy :: "(rat \<Rightarrow> rat) \<Rightarrow> (flt, flt, flt) numpy" where
  "float32_numpy rt =
     \<lparr>np_array = (\<lambda>xs. Inr (map as_float32 xs)),
      np_norm = (\<lambda>v. f32_sqrt rt (foldl f32_add (Finite 0) (map (\<lambda>x. f32_mul x x) v))),
      np_divide = (\<lambda>v n. map (\<lambda>x. f32_div x n) v),
      np_tolist = (\<lambda>v. v)\<rparr>"

section \<open>The model service (model\_service\_impl.py)\<close>

text \<open>
  A message of a completion request, and the part of a completion response that the
  service reads: \<^verbatim>\<open>resp.choices\<close>, each choice with its optional \<^verbatim>\<open>message\<close>, a
  message with its optional \<^verbatim>\<open>content\<close>.
\<close>

record request_message =
  req_role :: string
  req_content :: string

record completion_message =
  message_content :: "string option"

record completion_choice =
  choice_message :: "completion_message option"

record chat_completion =
  choices :: "completion_choice list"

text \<open>
  The completion client: \<open>respond\<close> is what the provider answers to a list of messages
  (a response, or an exception), and \<open>received\<close> lists the requests sent so far, oldest
  first.  \<^verbatim>\<open>client.chat.completions.create\<close> sends one request; the generation
  options are fixed by the configuration and left out.
\<close>

record llm_client =
  respond :: "request_message list \<Rightarrow> exn + chat_completion"
  received :: "request_message list list"

definition chat_completions_create ::
  "llm_client \<Rightarrow> request_message list \<Rightarrow> (exn + chat_completion) \<times> llm_client" where
  "chat_completions_create c messages =
     (respond c messages, c\<lparr>received := received c @ [messages]\<rparr>)"

text \<open>
  \<^verbatim>\<open>extract_requested_event_count\<close>.  \<open>count_prompt\<close> is
  \<^verbatim>\<open>COUNT_EXTRACT_SYS_PROMPT\<close>.  The text to parse is the content of the first choice,
  or \<^verbatim>\<open>"0"\<close> when there is no choice or the choice has no message; a content of
  \<^verbatim>\<open>None\<close> makes \<^verbatim>\<open>content.strip()\<close> raise \<^verbatim>\<open>AttributeError\<close>.  The result of
  \<^verbatim>\<open>int(...)\<close> is returned as it is.
\<close>

definition extract_requested_event_count ::
  "llm_client \<Rightarrow> string \<Rightarrow> string \<Rightarrow> (exn + int) \<times> llm_client" where
  "extract_requested_event_count c count_prompt user_prompt =
     (let system_msg = \<lparr>req_role = ''system'',
                         req_content = strip (count_prompt @ ''\<newline>\<newline>'')\<rparr>;
          user_msg = \<lparr>req_role = ''user'', req_content = user_prompt\<rparr>
      in case chat_completions_create c [system_msg, user_msg] of
           (Inl e, c') \<Rightarrow> (Inl e, c')
         | (Inr resp, c') \<Rightarrow>
             (let content =
                    (case choices resp of
                       [] \<Rightarrow> Some ''0''
                     | first # others \<Rightarrow>
                         (case choice_message first of
                            None \<Rightarrow> Some ''0''
                          | Some m \<Rightarrow> message_content m))
              in case content of
                   None \<Rightarrow> (Inl AttributeError, c')
                 | Some txt \<Rightarrow>
                     (case py_int (strip txt) of
                        None \<Rightarrow> (Inl ValueError, c')
                      | Some n \<Rightarrow> (Inr n, c'))))"

text \<open>\<^verbatim>\<open>build_messages\<close>.\<close>

definition build_messages :: "string option \<Rightarrow> string \<Rightarrow> string \<Rightarrow> request_message list" where
  "build_messages sys context user_prompt =
     (let sys_text = strip (or_empty sys);
          ctx_text = strip (if context \<noteq> [] then context else ''no events retrieved'')
      in [\<lparr>req_role = ''system'',
           req_content = strip (sys_text @ ''\<newline>\<newline>'' @ ctx_text)\<rparr>,
          \<lparr>req_role = ''user'', req_content = user_prompt\<rparr>])"

text \<open>
  The pieces of \<^verbatim>\<open>query_prompt\<close>.  \<open>recent_messages\<close>: the last
  \<^verbatim>\<open>MAX_HISTORY_IN_CONTEXT\<close> messages of the session, read when a session key and a
  history repository are present.  \<open>history_lines\<close>: one line per message that has a
  non-empty role and content.  \<open>combined_context\<close>: the documents block (when the joined
  documents are not blank) and the history block (when not empty), or a fixed text when
  both are missing.  \<open>answer_text\<close>: the content of the first choice, or the empty string.
\<close>

definition recent_messages :: "int \<Rightarrow> chat_history option \<Rightarrow> string \<Rightarrow> message list" where
  "recent_messages max_in_context repo session_key =
     (case repo of
        None \<Rightarrow> []
      | Some h \<Rightarrow>
          if session_key = [] then []
          else (let prior = fst (get_history h session_key)
                in if prior \<noteq> [] then py_slice_from (- max_in_context) prior else []))"

definition history_lines :: "message list \<Rightarrow> string list" where
  "history_lines recent =
     List.map_filter
       (\<lambda>m. case (role m, content m) of
               (Some r, Some c) \<Rightarrow>
                 if r \<noteq> [] \<and> c \<noteq> [] then Some (strip (r @ '': '' @ c)) else None
             | _ \<Rightarrow> None)
       recent"

definition combined_context :: "string \<Rightarrow> message list \<Rightarrow> string" where
  "combined_context rag_docs recent =
     (let history_block = (if recent \<noteq> [] then py_join ''\<newline>'' (history_lines recent) else []);
          parts =
            (if strip rag_docs \<noteq> [] then [''DOCUMENTS:\<newline>'' @ rag_docs] else [])
            @ (if history_block \<noteq> []
               then [''RECENT MESSAGES (last '' @ str_nat (length recent) @ ''):\<newline>''
                       @ history_block]
               else [])
      in if parts \<noteq> [] then py_join ''\<newline>\<newline>'' parts else ''No context available.'')"

definition answer_text :: "chat_completion \<Rightarrow> string" where
  "answer_text resp =
     or_empty
       (case choices resp of
          [] \<Rightarrow> Some []
        | first # others \<Rightarrow>
            (case choice_message first of
               None \<Rightarrow> Some []
             | Some m \<Rightarrow> message_content m))"

text \<open>
  The service with its injected collaborators (\<open>embed\<close> is
  \<^verbatim>\<open>embedding_service.create_embedding\<close>, \<open>search\<close> is
  \<^verbatim>\<open>event_repository.search_by_embedding\<close> with the default probes) and its settings,
  and the state that a call works on: the completion client and the optional history
  repository.
\<close>

record 'v model_service =
  embed :: "string \<Rightarrow> exn + 'v"
  search :: "'v \<Rightarrow> int \<Rightarrow> exn + 'v event list"
  sys_prompt :: "string option"
  count_sys_prompt :: string
  max_history_in_context :: int

record service_state =
  client :: llm_client
  history_repo :: "chat_history option"

text \<open>
  \<^verbatim>\<open>query_prompt\<close>: each \<^verbatim>\<open>await\<close> that raises ends the call with the state
  reached so far; the two \<^verbatim>\<open>append\<close> calls come after the answer is extracted.
\<close>

definition query_prompt ::
  "'v model_service \<Rightarrow> service_state \<Rightarrow> string \<Rightarrow> string \<Rightarrow> (exn + string) \<times> service_state" where
  "query_prompt svc st user_prompt session_key =
     (case embed svc user_prompt of
        Inl e \<Rightarrow> (Inl e, st)
      | Inr embed_vector \<Rightarrow>
          (case extract_requested_event_count (client st) (count_sys_prompt svc) user_prompt of
             (Inl e, c1) \<Rightarrow> (Inl e, st\<lparr>client := c1\<rparr>)
           | (Inr k, c1) \<Rightarrow>
               (case search svc embed_vector k of
                  Inl e \<Rightarrow> (Inl e, st\<lparr>client := c1\<rparr>)
                | Inr events \<Rightarrow>
                    (let rag_docs = py_join ''\<newline>'' (map format_event events);
                         recent = recent_messages (max_history_in_context svc)
                                    (history_repo st) session_key;
                         messages = build_messages (sys_prompt svc)
                                      (combined_context rag_docs recent) user_prompt
                     in case chat_completions_create c1 messages of
                          (Inl e, c2) \<Rightarrow> (Inl e, st\<lparr>client := c2\<rparr>)
                        | (Inr resp, c2) \<Rightarrow>
                            (let answer = strip (answer_text resp);
                                 repo' =
                                   (case history_repo st of
                                      None \<Rightarrow> None
                                    | Some h \<Rightarrow>
                                        if session_key = [] then Some h
                                        else Some (append_history
                                                    (append_history h session_key ''user'' user_prompt)
                                                    session_key ''assistant'' answer))
                             in (Inr answer, \<lparr>client = c2, history_repo = repo'\<rparr>))))))"

text \<open>
  A provider that answers every request with one choice holding a fixed text or with no
  choice at all, and a service whose index holds no event, for the examples.
\<close>

definition reply :: "string \<Rightarrow> chat_completion" where
  "reply txt = \<lparr>choices = [\<lparr>choice_message = Some \<lparr>message_content = Some txt\<rparr>\<rparr>]\<rparr>"

definition fixed_client :: "chat_completion \<Rightarrow> llm_client" where
  "fixed_client resp = \<lparr>respond = (\<lambda>messages. Inr resp), received = []\<rparr>"

definition empty_index_service :: "int model_service" where
  "empty_index_service =
     \<lparr>embed = (\<lambda>t. Inr 1), search = (\<lambda>v k. Inr []),
      sys_prompt = Some ''You are an Event Assistant.'',
      count_sys_prompt = ''Output how many events the user wants.'',
      max_history_in_context = 5\<rparr>"

text \<open>A state with a provider that always answers the given text and an empty history of capacity 50.\<close>

definition fresh_state :: "string \<Rightarrow> service_state" where
  "fresh_state txt = \<lparr>client = fixed_client (reply txt), history_repo = Some (new_history 50)\<rparr>"

section \<open>Properties\<close>

subsection \<open>Reading the chat history\<close>

lemma run_call_other_key:
  "\<not> writes_key k c \<Longrightarrow> store (run_call h c) k = store h k"
  by (cases c) (simp_all add: get_history_def set_history_def append_history_def Let_def)

lemma run_calls_other_key:
  "\<forall>c \<in> set calls. \<not> writes_key k c \<Longrightarrow> store (run_calls h calls) k = store h k"
  unfolding run_calls_def
  by (induction calls arbitrary: h) (simp_all add: run_call_other_key)

text \<open>
  C10.  \<^verbatim>\<open>get\<close> leaves the repository exactly as it was, and for a key that no
  \<^verbatim>\<open>set\<close> or \<^verbatim>\<open>append\<close> of the calls made since construction has written, it
  returns the empty list and the key still has no entry afterwards (earlier \<^verbatim>\<open>get\<close>
  calls on that key included).
\<close>

theorem get_unwritten_key_empty:
  "snd (get_history h k) = h \<and>
   ((\<forall>c \<in> set calls. \<not> writes_key k c) \<longrightarrow>
      fst (get_history (run_calls (new_history m) calls) k) = [] \<and>
      k \<notin> dom (store (snd (get_history (run_calls (new_history m) calls) k))))"
proof -
  have a: "snd (get_history h k) = h"
    by (simp add: get_history_def)
  have b: "fst (get_history (run_calls (new_history m) calls) k) = [] \<and>
      k \<notin> dom (store (snd (get_history (run_calls (new_history m) calls) k)))"
    if "\<forall>c \<in> set calls. \<not> writes_key k c"
  proof -
    have "store (run_calls (new_history m) calls) k = None"
      using run_calls_other_key [OF that, of "new_history m"]
      by (simp add: new_history_def)
    then show ?thesis
      by (simp add: get_history_def domIff)
  qed
  from a b show ?thesis by blast
qed

theorem get_unwritten_key_empty_witness:
  "fst (get_history (run_calls (new_history 50)
       [Get ''alice'', Append ''bob'' ''user'' ''hi'', Set ''carol'' [], Get ''alice'']) ''alice'') = []
   \<and> ''alice'' \<notin> dom (store (snd (get_history (run_calls (new_history 50)
       [Get ''alice'', Append ''bob'' ''user'' ''hi'', Set ''carol'' [], Get ''alice'']) ''alice'')))"
  using get_unwritten_key_empty [of "new_history 50" "''alice''"
      "[Get ''alice'', Append ''bob'' ''user'' ''hi'', Set ''carol'' [], Get ''alice'']" 50]
  by simp

subsection \<open>The bound on stored messages\<close>

lemma py_slice_from_last: "0 < m \<Longrightarrow> py_slice_from (- m) xs = drop (length xs - nat m) xs"
  by (auto simp: py_slice_from_def nat_diff_distrib' intro: arg_cong2 [where f = drop])

lemma py_slice_from_length: "0 < m \<Longrightarrow> int (length (py_slice_from (- m) xs)) \<le> m"
  by (simp add: py_slice_from_last)

lemma py_slice_from_suffix: "\<exists>ys. xs = ys @ py_slice_from start xs"
  unfolding py_slice_from_def by (metis append_take_drop_id)

lemma append_history_entry:
  "0 < max_messages h \<Longrightarrow>
   store (append_history h key r c) key =
     Some (py_slice_from (- max_messages h)
        ((case store h key of None \<Rightarrow> [] | Some ms \<Rightarrow> ms) @ [make_message (r, c)]))"
  by (auto simp: append_history_def Let_def make_message_def py_slice_from_last)

lemma append_history_max [simp]: "max_messages (append_history h key r c) = max_messages h"
  by (simp add: append_history_def Let_def)

lemma set_history_max [simp]: "max_messages (set_history h key ms) = max_messages h"
  by (simp add: set_history_def)

lemma run_call_max [simp]: "max_messages (run_call h c) = max_messages h"
  by (cases c) (simp_all add: get_history_def)

lemma run_calls_max [simp]: "max_messages (run_calls h cs) = max_messages h"
  unfolding run_calls_def by (induction cs arbitrary: h) simp_all

lemma run_call_within_bound:
  "0 < max_messages h \<Longrightarrow> within_bound h \<Longrightarrow> within_bound (run_call h c)"
  by (cases c)
     (auto simp: within_bound_def get_history_def set_history_def append_history_def Let_def
        py_slice_from_length split: if_splits option.splits)

text \<open>
  With a capacity of at least one, every entry stays within the capacity under any
  sequence of calls.
\<close>

lemma run_calls_within_bound:
  "0 < max_messages h \<Longrightarrow> within_bound h \<Longrightarrow> within_bound (run_calls h cs)"
  unfolding run_calls_def
  by (induction cs arbitrary: h) (simp_all add: run_call_within_bound)

lemma positive_capacity_bound:
  "0 < m \<Longrightarrow> within_bound (run_calls (new_history m) cs)"
  by (rule run_calls_within_bound) (simp_all add: new_history_def within_bound_def)

lemma drop_drop_snoc:
  "0 < m \<Longrightarrow> drop (length (drop (length xs - m) xs @ [x]) - m) (drop (length xs - m) xs @ [x])
     = drop (Suc (length xs) - m) (xs @ [x])"
  by (cases "m \<le> length xs") (auto simp: Suc_diff_le)

text \<open>
  With a capacity of at least one, \<open>N\<close> appends on a fresh key leave the last
  \<open>min N capacity\<close> messages, in call order.
\<close>

lemma append_all_fresh:
  assumes "0 < m"
  shows "store (append_all (new_history m) key rcs) key =
    (if rcs = [] then None else Some (drop (length rcs - nat m) (map make_message rcs)))"
proof (induction rcs rule: rev_induct)
  case Nil
  then show ?case by (simp add: append_all_def new_history_def)
next
  case (snoc rc rcs)
  have m: "max_messages (append_all (new_history m) key rcs) = m"
    unfolding append_all_def by (induction rcs rule: rev_induct) (simp_all add: new_history_def)
  show ?case
    using snoc assms m drop_drop_snoc [of "nat m" "map make_message rcs" "make_message rc"]
    by (simp add: append_all_def append_history_entry py_slice_from_last)
qed

text \<open>
  Whatever the capacity, what \<^verbatim>\<open>append\<close> stores is a suffix of the old entry
  followed by the new message: messages leave at the front only.
\<close>

lemma append_history_evicts_front:
  "\<exists>dropped kept. (case store h key of None \<Rightarrow> [] | Some ms \<Rightarrow> ms) @ [make_message (r, c)]
       = dropped @ kept
     \<and> store (append_history h key r c) key = Some kept"
proof (cases "int (length ((case store h key of None \<Rightarrow> [] | Some ms \<Rightarrow> ms) @ [make_message (r, c)]))
    > max_messages h")
  case True
  obtain ys where "(case store h key of None \<Rightarrow> [] | Some ms \<Rightarrow> ms) @ [make_message (r, c)]
      = ys @ py_slice_from (- max_messages h)
          ((case store h key of None \<Rightarrow> [] | Some ms \<Rightarrow> ms) @ [make_message (r, c)])"
    using py_slice_from_suffix by blast
  with True show ?thesis
    by (auto simp: append_history_def Let_def make_message_def)
next
  case False
  then have "store (append_history h key r c) key =
      Some ((case store h key of None \<Rightarrow> [] | Some ms \<Rightarrow> ms) @ [make_message (r, c)])"
    by (auto simp: append_history_def Let_def make_message_def)
  then show ?thesis by (metis append_Nil)
qed

text \<open>
  C9.  With capacity 0 the bound does not hold: the slice \<^verbatim>\<open>hist[-0:]\<close> is the whole
  list, so \<^verbatim>\<open>append\<close> and \<^verbatim>\<open>set\<close> keep every message.  After two appends on a
  fresh key of a repository built with \<^verbatim>\<open>max_messages=0\<close>, \<^verbatim>\<open>get\<close> returns both
  messages, and \<^verbatim>\<open>set\<close> with two messages stores both: two messages where the capacity
  allows none and \<open>min 2 0 = 0\<close>.
\<close>

theorem capacity_zero_keeps_all:
  "fst (get_history (append_history (append_history (new_history 0)
        ''s'' ''user'' ''hi'') ''s'' ''assistant'' ''hello'') ''s'')
     = [make_message (''user'', ''hi''), make_message (''assistant'', ''hello'')]
   \<and> fst (get_history (set_history (new_history 0) ''s''
        [make_message (''user'', ''hi''), make_message (''assistant'', ''hello'')]) ''s'')
     = [make_message (''user'', ''hi''), make_message (''assistant'', ''hello'')]
   \<and> int (length (fst (get_history (append_history (new_history 0) ''s'' ''user'' ''hi'') ''s'')))
       > max_messages (append_history (new_history 0) ''s'' ''user'' ''hi'')"
  by (simp add: get_history_def append_history_def set_history_def new_history_def
      make_message_def py_slice_from_def Let_def)

subsection \<open>The transactional wrapper\<close>

lemma rollback_inactive [simp]: "\<not> in_transaction (rollback s)"
  by (simp add: rollback_def)

lemma rollback_idem [simp]: "rollback (rollback s) = rollback s"
  by (simp add: rollback_def)

lemma begin_txn_active [simp]: "in_transaction (begin_txn s)"
  by (simp add: begin_txn_def)

lemma transactional_inner: "in_transaction s \<Longrightarrow> transactional n fn s = fn s"
  by (auto simp: transactional_def Let_def split: prod.splits sum.splits)

lemma transactional_outer:
  "\<not> in_transaction s \<Longrightarrow>
   transactional n fn s =
     (case exit_begin_block (fn (begin_txn s)) of
        (Inr v, s') \<Rightarrow> (Inr v, s')
      | (Inl e, s') \<Rightarrow>
          (Inl (if e = StaleDataError then ConcurrencyException (conflict_message n) else e),
           rollback s'))"
  by (auto simp: transactional_def Let_def split: prod.splits sum.splits)

lemma exit_begin_block_inactive:
  "exit_begin_block rs = (Inl e, s') \<Longrightarrow> \<not> in_transaction s'"
  by (auto simp: exit_begin_block_def split: prod.splits sum.splits if_splits)

text \<open>
  C4.  An invocation that finds a transaction active joins it: the wrapper then is the
  wrapped function itself, so it begins, commits and rolls back nothing and re-raises
  every exception unchanged, \<^verbatim>\<open>StaleDataError\<close> included.  A wrapped operation that
  calls another wrapped operation therefore behaves as if the inner one were not wrapped.
  The outermost invocation (no transaction active) never lets \<^verbatim>\<open>StaleDataError\<close>
  out and leaves no transaction open: it commits when the body returned, converts a
  stale write found by the body or by the commit into \<^verbatim>\<open>ConcurrencyException\<close>
  after rolling back, and rolls back and re-raises any other exception.
\<close>

theorem transactional_boundaries:
  "(in_transaction s \<longrightarrow> transactional n fn s = fn s)
   \<and> (\<not> in_transaction s \<longrightarrow>
        transactional n (transactional n' fn) s = transactional n fn s
      \<and> fst (transactional n fn s) \<noteq> Inl StaleDataError
      \<and> \<not> in_transaction (snd (transactional n fn s))
      \<and> (\<forall>v s1. fn (begin_txn s) = (Inr v, s1) \<and> in_transaction s1 \<and> \<not> pending_stale s1 \<longrightarrow>
            transactional n fn s
              = (Inr v, s1\<lparr>in_transaction := False, outcomes := outcomes s1 @ [Committed]\<rparr>))
      \<and> (\<forall>v s1. fn (begin_txn s) = (Inr v, s1) \<and> in_transaction s1 \<and> pending_stale s1 \<longrightarrow>
            transactional n fn s
              = (Inl (ConcurrencyException (conflict_message n)), rollback s1))
      \<and> (\<forall>e s1. fn (begin_txn s) = (Inl e, s1) \<longrightarrow>
            transactional n fn s
              = (Inl (if e = StaleDataError then ConcurrencyException (conflict_message n) else e),
                 rollback s1)))"
proof (intro conjI impI allI)
  assume "in_transaction s"
  then show "transactional n fn s = fn s" by (rule transactional_inner)
next
  assume o: "\<not> in_transaction s"
  have "transactional n' fn (begin_txn s) = fn (begin_txn s)"
    by (simp add: transactional_inner)
  then show "transactional n (transactional n' fn) s = transactional n fn s"
    using o by (simp add: transactional_outer)
next
  assume o: "\<not> in_transaction s"
  show "fst (transactional n fn s) \<noteq> Inl StaleDataError"
    using o by (auto simp: transactional_outer split: prod.splits sum.splits)
next
  assume o: "\<not> in_transaction s"
  show "\<not> in_transaction (snd (transactional n fn s))"
    using o
    by (auto simp: transactional_outer exit_begin_block_def split: prod.splits sum.splits if_splits)
next
  fix v s1
  assume o: "\<not> in_transaction s"
    and "fn (begin_txn s) = (Inr v, s1) \<and> in_transaction s1 \<and> \<not> pending_stale s1"
  then show "transactional n fn s
      = (Inr v, s1\<lparr>in_transaction := False, outcomes := outcomes s1 @ [Committed]\<rparr>)"
    by (simp add: transactional_outer exit_begin_block_def)
next
  fix v :: 'a and s1
  assume o: "\<not> in_transaction s"
    and "fn (begin_txn s) = (Inr v, s1) \<and> in_transaction s1 \<and> pending_stale s1"
  then show "transactional n fn s
      = (Inl (ConcurrencyException (conflict_message n)), rollback s1)"
    by (simp add: transactional_outer exit_begin_block_def)
next
  fix e s1
  assume o: "\<not> in_transaction s" and "fn (begin_txn s) = (Inl e, s1)"
  then show "transactional n fn s
      = (Inl (if e = StaleDataError then ConcurrencyException (conflict_message n) else e),
         rollback s1)"
    by (simp add: transactional_outer exit_begin_block_def)
qed

theorem transactional_boundaries_witness:
  "transactional ''update'' (transactional ''save'' (\<lambda>s. (Inr (1::nat), s))) idle_session
     = (Inr 1, \<lparr>in_transaction = False, outcomes = [Began, Committed], pending_stale = False\<rparr>)
   \<and> transactional ''update'' (transactional ''save'' (\<lambda>s. (Inl StaleDataError :: exn + nat, s))) idle_session
     = (Inl (ConcurrencyException (conflict_message ''update'')),
        \<lparr>in_transaction = False, outcomes = [Began, RolledBack], pending_stale = False\<rparr>)
   \<and> transactional ''save'' (\<lambda>s. (Inl StaleDataError :: exn + nat, s)) (begin_txn idle_session)
     = (Inl StaleDataError, begin_txn idle_session)"
  using transactional_boundaries [of idle_session "''update''" "\<lambda>s. (Inr (1::nat), s)" "''save''"]
    transactional_boundaries [of idle_session "''update''" "\<lambda>s. (Inl StaleDataError :: exn + nat, s)" "''save''"]
    transactional_boundaries [of "begin_txn idle_session" "''save''" "\<lambda>s. (Inl StaleDataError :: exn + nat, s)" "''save''"]
  by (simp add: idle_session_def begin_txn_def rollback_def)

subsection \<open>The retry wrapper\<close>

lemma invocations_append [simp]: "invocations (xs @ ys) = invocations xs + invocations ys"
  by (induction xs rule: invocations.induct) simp_all
















subsection \<open>The similarity search\<close>

lemma map_filter_embedded:
  "snd ` set (List.map_filter (\<lambda>e. if P e then map_option (\<lambda>v. (f v, e)) (embedding e) else None) es)
     \<subseteq> {e \<in> set es. embedding e \<noteq> None}"
  by (auto simp: List.map_filter_def split: if_splits)

text \<open>
  C6 (as amended).  For every query vector of the database's vector type: for \<open>k = 0\<close>
  the search returns the empty list; for \<open>k > 0\<close> within the range of a 64-bit integer
  it returns at most \<open>k\<close> events, each a row of the table that has an embedding; when
  no visited row has an embedding the result for such a \<open>k \<ge> 0\<close> is the empty list, not
  an error; for \<open>k < 0\<close> and for \<open>k \<ge> 2^63\<close> the database rejects the statement and
  the call raises.
\<close>

theorem search_by_embedding_limit:
  "(k = 0 \<longrightarrow> search_by_embedding distance probed events q k probes = Inr [])
   \<and> (0 < k \<and> k < 2 ^ 63 \<longrightarrow>
        (\<exists>res. search_by_embedding distance probed events q k probes = Inr res
           \<and> int (length res) \<le> k
           \<and> set res \<subseteq> {e \<in> set events. embedding e \<noteq> None}))
   \<and> (0 \<le> k \<and> k < 2 ^ 63
        \<and> (\<forall>e \<in> set events. embedding e = None \<or> \<not> probed probes q e) \<longrightarrow>
        search_by_embedding distance probed events q k probes = Inr [])
   \<and> (k < 0 \<or> 2 ^ 63 \<le> k \<longrightarrow>
        search_by_embedding distance probed events q k probes
          = Inl (DatabaseError (if k < - (2 ^ 63) \<or> 2 ^ 63 \<le> k then ''bigint out of range''
                                else ''LIMIT must not be negative'')))"
proof (intro conjI impI)
  assume "k = 0"
  then show "search_by_embedding distance probed events q k probes = Inr []"
    by (simp add: search_by_embedding_def)
next
  assume k: "0 < k \<and> k < 2 ^ 63"
  let ?rows = "List.map_filter
      (\<lambda>e. if probed probes q e then map_option (\<lambda>v. (distance v q, e)) (embedding e) else None)
      events"
  let ?res = "take (nat k) (map snd (sort_key fst ?rows))"
  have "set ?res \<subseteq> snd ` set ?rows"
    by (metis (no_types, lifting) set_take_subset set_map set_sort)
  also have "\<dots> \<subseteq> {e \<in> set events. embedding e \<noteq> None}"
    by (rule map_filter_embedded)
  finally have "set ?res \<subseteq> {e \<in> set events. embedding e \<noteq> None}" .
  moreover have "int (length ?res) \<le> k"
  proof -
    have "length ?res \<le> nat k" by simp
    moreover from k have "0 < k" by simp
    ultimately show ?thesis by linarith
  qed
  moreover have "search_by_embedding distance probed events q k probes = Inr ?res"
    using k by (simp add: search_by_embedding_def)
  ultimately show "\<exists>res. search_by_embedding distance probed events q k probes = Inr res
           \<and> int (length res) \<le> k
           \<and> set res \<subseteq> {e \<in> set events. embedding e \<noteq> None}"
    by blast
next
  assume a: "0 \<le> k \<and> k < 2 ^ 63
        \<and> (\<forall>e \<in> set events. embedding e = None \<or> \<not> probed probes q e)"
  then have "List.map_filter
      (\<lambda>e. if probed probes q e then map_option (\<lambda>v. (distance v q, e)) (embedding e) else None)
      events = []"
    by (auto simp: List.map_filter_def filter_empty_conv)
  with a show "search_by_embedding distance probed events q k probes = Inr []"
    by (simp add: search_by_embedding_def)
next
  assume "k < 0 \<or> 2 ^ 63 \<le> k"
  then show "search_by_embedding distance probed events q k probes
          = Inl (DatabaseError (if k < - (2 ^ 63) \<or> 2 ^ 63 \<le> k then ''bigint out of range''
                                else ''LIMIT must not be negative''))"
    by (auto simp: search_by_embedding_def)
qed

theorem search_by_embedding_limit_witness:
  "search_by_embedding line_distance every_row sample_events 3 0 (Some 10) = Inr []
   \<and> search_by_embedding line_distance every_row sample_events 3 1 (Some 10)
       = Inr [plain_event ''Meetup'' (Some 2)]
   \<and> search_by_embedding line_distance every_row [plain_event ''Draft'' None] 3 5 (Some 10) = Inr []
   \<and> search_by_embedding line_distance every_row sample_events 3 (- 2) (Some 10)
       = Inl (DatabaseError ''LIMIT must not be negative'')
   \<and> search_by_embedding line_distance every_row sample_events 3 (2 ^ 64) (Some 10)
       = Inl (DatabaseError ''bigint out of range'')"
proof -
  have one: "search_by_embedding line_distance every_row sample_events 3 1 (Some 10)
       = Inr [plain_event ''Meetup'' (Some 2)]"
    by (simp add: search_by_embedding_def sample_events_def plain_event_def line_distance_def
        every_row_def List.map_filter_def)
  from one
    search_by_embedding_limit [of 0 line_distance every_row sample_events 3 "Some 10"]
    search_by_embedding_limit [of 1 line_distance every_row sample_events 3 "Some 10"]
    search_by_embedding_limit [of 5 line_distance every_row "[plain_event ''Draft'' None]" 3 "Some 10"]
    search_by_embedding_limit [of "- 2" line_distance every_row sample_events 3 "Some 10"]
    search_by_embedding_limit [of "2 ^ 64" line_distance every_row sample_events 3 "Some 10"]
  show ?thesis
    by (simp add: plain_event_def)
qed

text \<open>
  C6, the claim as stated fails for a negative \<open>k\<close>, where the call raises instead of
  returning the empty list, and for a positive \<open>k\<close> beyond the 64-bit range, where it
  raises instead of returning at most \<open>k\<close> results.
\<close>

theorem negative_k_raises:
  "search_by_embedding line_distance every_row sample_events 3 (- 1) (Some 10)
     = Inl (DatabaseError ''LIMIT must not be negative'')
   \<and> search_by_embedding line_distance every_row sample_events 3 (- 1) (Some 10) \<noteq> Inr []
   \<and> search_by_embedding line_distance every_row sample_events 3 (2 ^ 63) (Some 10)
     = Inl (DatabaseError ''bigint out of range'')"
  by (simp add: search_by_embedding_def)

subsection \<open>The embedding service\<close>

lemma party_not_blank: "strip ''party'' \<noteq> []"
  by (simp add: strip_def py_isspace_def)

lemma blank_is_blank: "strip ''  '' = []"
  by (simp add: strip_def py_isspace_def)

lemma small_numbers: "str_int 2 = ''2''" "str_nat 1 = ''1''"
  by code_simp+

text \<open>
  C8 (as amended).  For every text that is empty after trimming, \<^verbatim>\<open>create_embedding\<close>
  raises \<^verbatim>\<open>EmbeddingServiceException\<close> with the message for invalid input and status
  500, whatever the provider would answer.  For a text that is not, a failing request, a
  response without data, an embedding of another length than the configured dimension
  and an embedding of that length whose norm is zero each raise the same class
  \<^verbatim>\<open>EmbeddingServiceException\<close> with status 500, and the error handler answers an
  exception of this class and status with the code \<^verbatim>\<open>EMBEDDING_SERVICE_ERROR\<close> and
  status 500: the cases differ in the message text and in the attached original exception
  only.
\<close>

theorem create_embedding_failures:
  "(strip text = [] \<longrightarrow>
      create_embedding vector_dim np create text
        = Inl (EmbeddingServiceException ''Input text must be a non-empty string.'' 500 None))
   \<and> (\<forall>e. strip text \<noteq> [] \<and> create text vector_dim = Inl e \<longrightarrow>
        create_embedding vector_dim np create text
          = Inl (EmbeddingServiceException ''OpenAI embedding request failed.'' 500 (Some e)))
   \<and> (strip text \<noteq> [] \<and> create text vector_dim = Inr [] \<longrightarrow>
        create_embedding vector_dim np create text
          = Inl (EmbeddingServiceException ''OpenAI returned an unexpected embedding payload.''
                   500 (Some IndexError)))
   \<and> (\<forall>emb others. strip text \<noteq> [] \<and> create text vector_dim = Inr (Some emb # others)
          \<and> int (length emb) \<noteq> vector_dim \<longrightarrow>
        create_embedding vector_dim np create text
          = Inl (EmbeddingServiceException
                   (''Expected '' @ str_int vector_dim @ ''-dim embedding, got ''
                      @ str_nat (length emb)) 500 None))
   \<and> (\<forall>emb others vec. strip text \<noteq> [] \<and> create text vector_dim = Inr (Some emb # others)
          \<and> int (length emb) = vector_dim \<and> np_array np emb = Inr vec \<and> np_norm np vec = 0 \<longrightarrow>
        create_embedding vector_dim np create text
          = Inl (EmbeddingServiceException
                   ''Embedding vector has zero norm, cannot normalize.'' 500 None))
   \<and> (\<forall>msg orig. class_name (EmbeddingServiceException msg 500 orig) = ''EmbeddingServiceException''
          \<and> error_response (EmbeddingServiceException msg 500 orig)
              = (''EMBEDDING_SERVICE_ERROR'', 500))"
  by (simp add: create_embedding_def)

theorem create_embedding_failures_witness:
  "create_embedding 2 real_numpy (\<lambda>t d. Inr [Some [0, 0]]) ''  ''
     = Inl (EmbeddingServiceException ''Input text must be a non-empty string.'' 500 None)
   \<and> create_embedding 2 real_numpy (\<lambda>t d. Inl (ProviderError ''timeout'')) ''party''
     = Inl (EmbeddingServiceException ''OpenAI embedding request failed.'' 500
              (Some (ProviderError ''timeout'')))
   \<and> create_embedding 2 real_numpy (\<lambda>t d. Inr []) ''party''
     = Inl (EmbeddingServiceException ''OpenAI returned an unexpected embedding payload.'' 500
              (Some IndexError))
   \<and> create_embedding 2 real_numpy (\<lambda>t d. Inr [Some [1]]) ''party''
     = Inl (EmbeddingServiceException ''Expected 2-dim embedding, got 1'' 500 None)
   \<and> create_embedding 2 real_numpy (\<lambda>t d. Inr [Some [0, 0]]) ''party''
     = Inl (EmbeddingServiceException ''Embedding vector has zero norm, cannot normalize.''
              500 None)"
proof -
  have zero: "np_array real_numpy [0, 0] = Inr [0, 0]" "np_norm real_numpy [0, 0] = 0"
    by (simp_all add: real_numpy_def)
  from blank_is_blank party_not_blank zero small_numbers
    create_embedding_failures [of "''  ''" 2 real_numpy "\<lambda>t d. Inr [Some [0, 0]]"]
    create_embedding_failures [of "''party''" 2 real_numpy "\<lambda>t d. Inl (ProviderError ''timeout'')"]
    create_embedding_failures [of "''party''" 2 real_numpy "\<lambda>t d. Inr []"]
    create_embedding_failures [of "''party''" 2 real_numpy "\<lambda>t d. Inr [Some [1]]"]
    create_embedding_failures [of "''party''" 2 real_numpy "\<lambda>t d. Inr [Some [0, 0]]"]
  show ?thesis by simp
qed

text \<open>
  A payload whose embedding is missing, or holds an element that numpy does not convert,
  is not among these: the exception of \<^verbatim>\<open>len\<close> or of \<^verbatim>\<open>np.array\<close> leaves
  \<^verbatim>\<open>create_embedding\<close> as it is.
\<close>

lemma malformed_payload_escapes:
  "strip text \<noteq> [] \<Longrightarrow> create text vector_dim = Inr (None # others) \<Longrightarrow>
   create_embedding vector_dim np create text = Inl TypeError"
  "strip text \<noteq> [] \<Longrightarrow> create text vector_dim = Inr (Some emb # others) \<Longrightarrow>
   int (length emb) = vector_dim \<Longrightarrow> np_array np emb = Inl e \<Longrightarrow>
   create_embedding vector_dim np create text = Inl e"
  by (simp_all add: create_embedding_def)

text \<open>
  C8, the claim as stated fails: empty input, a provider failure, a vector of the wrong
  dimension and a zero vector all raise the same class, and the handler gives them the
  same code and status.
\<close>

theorem embedding_failures_share_one_class:
  "map_sum class_name id (create_embedding 2 real_numpy (\<lambda>t d. Inr [Some [0, 0]]) ''  '')
     = Inl ''EmbeddingServiceException''
   \<and> map_sum class_name id
        (create_embedding 2 real_numpy (\<lambda>t d. Inl (ProviderError ''timeout'')) ''party'')
     = Inl ''EmbeddingServiceException''
   \<and> map_sum class_name id (create_embedding 2 real_numpy (\<lambda>t d. Inr [Some [1]]) ''party'')
     = Inl ''EmbeddingServiceException''
   \<and> map_sum class_name id (create_embedding 2 real_numpy (\<lambda>t d. Inr [Some [0, 0]]) ''party'')
     = Inl ''EmbeddingServiceException''
   \<and> map_sum error_response id (create_embedding 2 real_numpy (\<lambda>t d. Inr [Some [0, 0]]) ''  '')
     = map_sum error_response id
        (create_embedding 2 real_numpy (\<lambda>t d. Inr [Some [0, 0]]) ''party'')
   \<and> map_sum error_response id (create_embedding 2 real_numpy (\<lambda>t d. Inr [Some [0, 0]]) ''  '')
     = map_sum error_response id
        (create_embedding 2 real_numpy (\<lambda>t d. Inl (ProviderError ''timeout'')) ''party'')"
  by (simp add: create_embedding_def real_numpy_def strip_def py_isspace_def)

subsection \<open>The norm of an embedding\<close>

text \<open>
  The normalisation itself is right: in exact arithmetic every returned vector has the
  configured length and the Euclidean norm 1, and on float32 every returned vector has
  the configured length.
\<close>

lemma sum_list_scaled_squares:
  "sum_list (map (\<lambda>x. x * x) (map (\<lambda>x. x / n) xs)) = sum_list (map (\<lambda>x. x * x) xs) / (n * n)"
  for n :: real
  by (induction xs) (simp_all add: add_divide_distrib)

lemma exact_embedding_unit:
  assumes "create_embedding vector_dim real_numpy create text = Inr v"
  shows "int (length v) = vector_dim \<and> sqrt (sum_list (map (\<lambda>x. x * x) v)) = 1"
proof -
  from assms obtain emb others where emb: "create text vector_dim = Inr (Some emb # others)"
    and len: "int (length emb) = vector_dim"
    and nz: "sqrt (sum_list (map (\<lambda>x. x * x) emb)) \<noteq> 0"
    and v: "v = map (\<lambda>x. x / sqrt (sum_list (map (\<lambda>x. x * x) emb))) emb"
    by (auto simp: create_embedding_def real_numpy_def Let_def
        split: if_splits sum.splits list.splits option.splits)
  let ?s = "sum_list (map (\<lambda>x. x * x) emb)"
  have nonneg: "0 \<le> ?s" by (rule sum_list_nonneg) auto
  with nz have pos: "0 < ?s" by (cases "?s = 0") simp_all
  have "sum_list (map (\<lambda>x. x * x) v) = ?s / (sqrt ?s * sqrt ?s)"
    unfolding v by (rule sum_list_scaled_squares)
  also have "\<dots> = 1" using pos by simp
  finally show ?thesis using len v by simp
qed

lemma float32_embedding_length:
  "create_embedding vector_dim (float32_numpy rt) create text = Inr v \<Longrightarrow>
   int (length v) = vector_dim"
  by (auto simp: create_embedding_def float32_numpy_def Let_def
      split: if_splits sum.splits list.splits option.splits)

lemma big_float: "to_float32 100000000000000000000 = Finite 100000002004087734272"
  by code_simp

lemma big_square: "to_float32 10000000400817550870767646659478483369984 = PosInf"
  by code_simp

lemma foldl_add_inf: "foldl f32_add PosInf (replicate n PosInf) = PosInf"
  by (induction n) simp_all

lemma overflowing_norm:
  "0 < n \<Longrightarrow>
   np_norm (float32_numpy rt) (map as_float32 (replicate n (Finite (10 ^ 20)))) = PosInf"
  by (cases n) (simp_all add: float32_numpy_def big_float big_square foldl_add_inf)

lemma overflowing_embedding:
  assumes "0 < n" and "strip text \<noteq> []"
  shows "create_embedding (int n) (float32_numpy rt)
           (\<lambda>t d. Inr [Some (replicate n (Finite (10 ^ 20)))]) text
         = Inr (replicate n (Finite 0))"
proof -
  have "np_array (float32_numpy rt) (replicate n (Finite (10 ^ 20)))
      = Inr (map as_float32 (replicate n (Finite (10 ^ 20))))"
    by (simp add: float32_numpy_def)
  moreover have "np_tolist (float32_numpy rt)
      (np_divide (float32_numpy rt) (map as_float32 (replicate n (Finite (10 ^ 20)))) PosInf)
      = replicate n (Finite 0)"
    by (simp add: float32_numpy_def big_float)
  ultimately show ?thesis
    using assms overflowing_norm [OF assms(1), of rt]
    by (simp add: create_embedding_def zero_flt_def)
qed

text \<open>
  C7.  The result does not always have norm 1: when the provider returns the configured
  number of elements, each \<^verbatim>\<open>1e20\<close>, the squares overflow in float32, the norm is
  infinite, and \<^verbatim>\<open>create_embedding\<close> returns the zero vector, for the dimension 2 as
  for the default dimension 1024 (whatever the rounded square root is on finite values).
\<close>

theorem overflowing_embedding_zero:
  "create_embedding 2 (float32_numpy rt)
     (\<lambda>t d. Inr [Some [Finite (10 ^ 20), Finite (10 ^ 20)]]) ''party''
     = Inr [Finite 0, Finite 0]
   \<and> create_embedding 1024 (float32_numpy rt)
     (\<lambda>t d. Inr [Some (replicate 1024 (Finite (10 ^ 20)))]) ''party''
     = Inr (replicate 1024 (Finite 0))"
proof -
  have "create_embedding (int 2) (float32_numpy rt)
     (\<lambda>t d. Inr [Some (replicate 2 (Finite (10 ^ 20)))]) ''party''
     = Inr (replicate 2 (Finite 0))"
    by (rule overflowing_embedding [OF _ party_not_blank]) simp
  moreover have "create_embedding (int 1024) (float32_numpy rt)
     (\<lambda>t d. Inr [Some (replicate 1024 (Finite (10 ^ 20)))]) ''party''
     = Inr (replicate 1024 (Finite 0))"
    by (rule overflowing_embedding [OF _ party_not_blank]) simp
  ultimately show ?thesis
    by (simp add: numeral_2_eq_2)
qed

subsection \<open>The count extraction\<close>

lemma strip_digits [simp]:
  "strip ''0'' = ''0''" "strip ''-3'' = ''-3''" "strip ''five'' = ''five''" "strip ''5'' = ''5''"
  by (simp_all add: strip_def py_isspace_def)

lemma py_int_examples:
  "py_int ''0'' = Some 0" "py_int ''-3'' = Some (- 3)" "py_int ''five'' = None"
  "py_int ''5'' = Some 5"
  by (simp_all add: py_int_def unsigned_literal_def is_digit_def digits_value_def)

text \<open>
  What \<^verbatim>\<open>extract_requested_event_count\<close> does with each answer of the provider.  It
  sends one request (the count prompt as system message, the user prompt as user
  message).  An exception of the provider propagates.  A response with no choices, or
  whose first choice has no message, gives the result 0.  Otherwise the trimmed content of
  the first choice decides: when it is an integer literal the result is the integer it
  denotes, and when it is not, the call raises \<^verbatim>\<open>ValueError\<close> and no default is
  substituted.
\<close>

lemma extract_count_result:
  "(\<forall>e. respond c [\<lparr>req_role = ''system'', req_content = strip (count_prompt @ ''\<newline>\<newline>'')\<rparr>,
                    \<lparr>req_role = ''user'', req_content = user_prompt\<rparr>] = Inl e \<longrightarrow>
      fst (extract_requested_event_count c count_prompt user_prompt) = Inl e)
   \<and> (\<forall>resp. respond c [\<lparr>req_role = ''system'', req_content = strip (count_prompt @ ''\<newline>\<newline>'')\<rparr>,
                         \<lparr>req_role = ''user'', req_content = user_prompt\<rparr>] = Inr resp
          \<and> (choices resp = []
              \<or> (\<exists>first others. choices resp = first # others \<and> choice_message first = None)) \<longrightarrow>
        fst (extract_requested_event_count c count_prompt user_prompt) = Inr 0)
   \<and> (\<forall>resp first others m t.
          respond c [\<lparr>req_role = ''system'', req_content = strip (count_prompt @ ''\<newline>\<newline>'')\<rparr>,
                     \<lparr>req_role = ''user'', req_content = user_prompt\<rparr>] = Inr resp
          \<and> choices resp = first # others \<and> choice_message first = Some m
          \<and> message_content m = Some t \<longrightarrow>
        fst (extract_requested_event_count c count_prompt user_prompt)
          = (case py_int (strip t) of None \<Rightarrow> Inl ValueError | Some n \<Rightarrow> Inr n))
   \<and> received (snd (extract_requested_event_count c count_prompt user_prompt))
        = received c @ [[\<lparr>req_role = ''system'', req_content = strip (count_prompt @ ''\<newline>\<newline>'')\<rparr>,
                         \<lparr>req_role = ''user'', req_content = user_prompt\<rparr>]]"
proof (intro conjI allI impI)
  fix e
  assume "respond c [\<lparr>req_role = ''system'', req_content = strip (count_prompt @ ''\<newline>\<newline>'')\<rparr>,
                    \<lparr>req_role = ''user'', req_content = user_prompt\<rparr>] = Inl e"
  then show "fst (extract_requested_event_count c count_prompt user_prompt) = Inl e"
    by (simp add: extract_requested_event_count_def chat_completions_create_def)
next
  fix resp
  assume "respond c [\<lparr>req_role = ''system'', req_content = strip (count_prompt @ ''\<newline>\<newline>'')\<rparr>,
                         \<lparr>req_role = ''user'', req_content = user_prompt\<rparr>] = Inr resp
          \<and> (choices resp = []
              \<or> (\<exists>first others. choices resp = first # others \<and> choice_message first = None))"
  then show "fst (extract_requested_event_count c count_prompt user_prompt) = Inr 0"
    by (auto simp: extract_requested_event_count_def chat_completions_create_def py_int_examples)
next
  fix resp first others m t
  assume "respond c [\<lparr>req_role = ''system'', req_content = strip (count_prompt @ ''\<newline>\<newline>'')\<rparr>,
                     \<lparr>req_role = ''user'', req_content = user_prompt\<rparr>] = Inr resp
          \<and> choices resp = first # others \<and> choice_message first = Some m
          \<and> message_content m = Some t"
  then show "fst (extract_requested_event_count c count_prompt user_prompt)
          = (case py_int (strip t) of None \<Rightarrow> Inl ValueError | Some n \<Rightarrow> Inr n)"
    by (auto simp: extract_requested_event_count_def chat_completions_create_def
        split: option.splits)
next
  show "received (snd (extract_requested_event_count c count_prompt user_prompt))
        = received c @ [[\<lparr>req_role = ''system'', req_content = strip (count_prompt @ ''\<newline>\<newline>'')\<rparr>,
                         \<lparr>req_role = ''user'', req_content = user_prompt\<rparr>]]"
    by (auto simp: extract_requested_event_count_def chat_completions_create_def Let_def
        split: sum.splits option.splits list.splits)
qed

lemma extract_count_result_examples:
  "fst (extract_requested_event_count (fixed_client \<lparr>choices = []\<rparr>)
        ''Output how many events the user wants.'' ''any concerts?'') = Inr 0
   \<and> fst (extract_requested_event_count (fixed_client (reply '' 3 ''))
        ''Output how many events the user wants.'' ''any concerts?'') = Inr 3
   \<and> fst (extract_requested_event_count (fixed_client (reply ''five''))
        ''Output how many events the user wants.'' ''any concerts?'') = Inl ValueError
   \<and> fst (extract_requested_event_count
        \<lparr>respond = (\<lambda>messages. Inl (ProviderError ''timeout'')), received = []\<rparr>
        ''Output how many events the user wants.'' ''any concerts?'') = Inl (ProviderError ''timeout'')"
proof -
  have three: "py_int (strip '' 3 '') = Some 3"
    by (simp add: py_int_def strip_def py_isspace_def unsigned_literal_def is_digit_def
        digits_value_def)
  from three py_int_examples
    extract_count_result [of "fixed_client \<lparr>choices = []\<rparr>"
      "''Output how many events the user wants.''" "''any concerts?''"]
    extract_count_result [of "fixed_client (reply '' 3 '')"
      "''Output how many events the user wants.''" "''any concerts?''"]
    extract_count_result [of "fixed_client (reply ''five'')"
      "''Output how many events the user wants.''" "''any concerts?''"]
    extract_count_result [of "\<lparr>respond = (\<lambda>messages. Inl (ProviderError ''timeout'')), received = []\<rparr>"
      "''Output how many events the user wants.''" "''any concerts?''"]
  show ?thesis
    by (simp add: fixed_client_def reply_def)
qed

text \<open>
  C1.  The count is not always at least 1, and no clamp to a minimum of 1 is applied: a
  response without choices is mapped to the text \<^verbatim>\<open>"0"\<close> and the call returns 0, and
  a literal that is zero or negative is returned as it is.
\<close>

theorem no_choices_counts_zero:
  "fst (extract_requested_event_count (fixed_client \<lparr>choices = []\<rparr>)
        ''Output how many events the user wants.'' ''any concerts?'') = Inr 0
   \<and> fst (extract_requested_event_count (fixed_client (reply ''0''))
        ''Output how many events the user wants.'' ''any concerts?'') = Inr 0
   \<and> fst (extract_requested_event_count (fixed_client (reply ''-3''))
        ''Output how many events the user wants.'' ''any concerts?'') = Inr (- 3)"
  by (simp add: extract_requested_event_count_def chat_completions_create_def fixed_client_def
      reply_def py_int_examples)

subsection \<open>The context sent with an empty retrieval\<close>

lemma contains_str_suffix: "contains_str (pre @ m) m"
proof (induction pre)
  case Nil
  show ?case by (cases m) simp_all
next
  case (Cons c pre)
  then show ?case by simp
qed

lemma strip_append_solid:
  assumes "b \<noteq> []" and "\<not> py_isspace (hd b)" and "\<not> py_isspace (last b)"
  shows "strip (a @ b) = dropWhile py_isspace a @ b"
proof -
  obtain y ys where b: "b = y # ys" using assms(1) by (cases b) auto
  with assms(2) have front: "dropWhile py_isspace (a @ b) = dropWhile py_isspace a @ b"
    by (simp add: dropWhile_append)
  obtain bs l where bl: "b = bs @ [l]" using assms(1) by (metis rev_exhaust)
  with assms(3) have "dropWhile py_isspace (rev (dropWhile py_isspace a @ b))
      = rev (dropWhile py_isspace a @ b)"
    by simp
  with front show ?thesis by (simp add: strip_def)
qed

lemma marker_solid:
  "''No context available.'' \<noteq> []"
  "\<not> py_isspace (hd ''No context available.'')"
  "\<not> py_isspace (last ''No context available.'')"
  by (simp_all add: py_isspace_def)

lemma strip_marker: "strip ''No context available.'' = ''No context available.''"
  using strip_append_solid [OF marker_solid, of "[]"] by simp

lemma build_messages_no_context:
  "build_messages sys ''No context available.'' user_prompt =
     [\<lparr>req_role = ''system'',
       req_content = dropWhile py_isspace (strip (or_empty sys) @ ''\<newline>\<newline>'')
                       @ ''No context available.''\<rparr>,
      \<lparr>req_role = ''user'', req_content = user_prompt\<rparr>]"
  using strip_append_solid [OF marker_solid, of "strip (or_empty sys) @ ''\<newline>\<newline>''"]
  by (simp add: build_messages_def strip_marker)

lemma combined_context_nothing: "combined_context [] [] = ''No context available.''"
  by (simp add: combined_context_def strip_def)

text \<open>
  C2 (as amended).  When the embedding and the count extraction succeed, the search
  returns no event and there is no history for the call (no repository, an empty session
  key, or no stored message for the key), the context is the text
  \<^verbatim>\<open>No context available.\<close>, not the empty string, and the request then sent to the
  provider is a system message whose content ends with that text, followed by the user
  message with the raw prompt.
\<close>

theorem empty_retrieval_marker:
  assumes "embed svc user_prompt = Inr v"
    and "extract_requested_event_count (client st) (count_sys_prompt svc) user_prompt = (Inr k, c1)"
    and "search svc v k = Inr []"
    and "history_repo st = None \<or> session_key = []
         \<or> (\<exists>h. history_repo st = Some h \<and> fst (get_history h session_key) = [])"
  shows "combined_context (py_join ''\<newline>'' (map format_event ([] :: 'a event list)))
           (recent_messages (max_history_in_context svc) (history_repo st) session_key)
           = ''No context available.''
         \<and> (\<exists>pre. received (client (snd (query_prompt svc st user_prompt session_key)))
               = received c1
                 @ [[\<lparr>req_role = ''system'', req_content = pre @ ''No context available.''\<rparr>,
                     \<lparr>req_role = ''user'', req_content = user_prompt\<rparr>]]
             \<and> contains_str (pre @ ''No context available.'') ''No context available.'')"
proof -
  have recent: "recent_messages (max_history_in_context svc) (history_repo st) session_key = []"
    using assms(4) by (auto simp: recent_messages_def Let_def split: option.splits)
  have ctx: "combined_context (py_join ''\<newline>'' (map format_event ([] :: 'a event list)))
           (recent_messages (max_history_in_context svc) (history_repo st) session_key)
           = ''No context available.''"
    by (simp add: recent combined_context_nothing)
  let ?pre = "dropWhile py_isspace (strip (or_empty (sys_prompt svc)) @ ''\<newline>\<newline>'')"
  have "received (client (snd (query_prompt svc st user_prompt session_key)))
      = received c1
        @ [[\<lparr>req_role = ''system'', req_content = ?pre @ ''No context available.''\<rparr>,
            \<lparr>req_role = ''user'', req_content = user_prompt\<rparr>]]"
    using assms(1-3)
    by (simp add: query_prompt_def recent combined_context_nothing build_messages_no_context
        chat_completions_create_def Let_def split: sum.splits prod.splits)
  with ctx contains_str_suffix show ?thesis by blast
qed

lemma example_count:
  "extract_requested_event_count (fixed_client (reply ''5''))
     ''Output how many events the user wants.'' p
   = (Inr 5, \<lparr>respond = (\<lambda>messages. Inr (reply ''5'')),
       received = [[\<lparr>req_role = ''system'', req_content = ''Output how many events the user wants.''\<rparr>,
                   \<lparr>req_role = ''user'', req_content = p\<rparr>]]\<rparr>)"
  by (simp add: extract_requested_event_count_def chat_completions_create_def fixed_client_def
      reply_def py_int_examples strip_def py_isspace_def)


lemma example_search: "search empty_index_service v k = Inr []" "embed empty_index_service p = Inr 1"
  "count_sys_prompt empty_index_service = ''Output how many events the user wants.''"
  by (simp_all add: empty_index_service_def)

theorem empty_retrieval_marker_witness:
  "\<exists>pre. received (client (snd (query_prompt empty_index_service (fresh_state ''5'')
        ''any concerts?'' ''7'')))
      = [[\<lparr>req_role = ''system'', req_content = ''Output how many events the user wants.''\<rparr>,
          \<lparr>req_role = ''user'', req_content = ''any concerts?''\<rparr>],
         [\<lparr>req_role = ''system'', req_content = pre @ ''No context available.''\<rparr>,
          \<lparr>req_role = ''user'', req_content = ''any concerts?''\<rparr>]]"
proof -
  have none: "history_repo (fresh_state ''5'') = None \<or> ''7'' = []
      \<or> (\<exists>h. history_repo (fresh_state ''5'') = Some h \<and> fst (get_history h ''7'') = [])"
    by (simp add: fresh_state_def get_history_def new_history_def)
  have count: "extract_requested_event_count (client (fresh_state ''5''))
      (count_sys_prompt empty_index_service) ''any concerts?''
    = (Inr 5, \<lparr>respond = (\<lambda>messages. Inr (reply ''5'')),
       received = [[\<lparr>req_role = ''system'', req_content = ''Output how many events the user wants.''\<rparr>,
                   \<lparr>req_role = ''user'', req_content = ''any concerts?''\<rparr>]]\<rparr>)"
    by (simp add: fresh_state_def example_search example_count)
  from empty_retrieval_marker [OF example_search(2) count example_search(1) none]
  show ?thesis by auto
qed

text \<open>
  C2, the claim as stated fails: with an empty index, an empty history and the system
  prompt \<^verbatim>\<open>You are an Event Assistant.\<close> the system message sent does not contain
  \<^verbatim>\<open>no events retrieved\<close>.  The fallback of that wording in \<^verbatim>\<open>build_messages\<close>
  applies to an empty context only, and \<^verbatim>\<open>query_prompt\<close> never passes one.
\<close>

theorem empty_retrieval_other_marker:
  "received (client (snd (query_prompt empty_index_service (fresh_state ''5'')
        ''any concerts?'' ''7'')))
     = [[\<lparr>req_role = ''system'', req_content = ''Output how many events the user wants.''\<rparr>,
         \<lparr>req_role = ''user'', req_content = ''any concerts?''\<rparr>],
        [\<lparr>req_role = ''system'',
          req_content = ''You are an Event Assistant.\<newline>\<newline>No context available.''\<rparr>,
         \<lparr>req_role = ''user'', req_content = ''any concerts?''\<rparr>]]
   \<and> \<not> contains_str ''You are an Event Assistant.\<newline>\<newline>No context available.''
         ''no events retrieved''"
proof -
  have sys: "strip ''You are an Event Assistant.'' = ''You are an Event Assistant.''"
    by (simp add: strip_def py_isspace_def)
  have recent: "recent_messages 5 (Some (new_history 50)) ''7'' = []"
    by (simp add: recent_messages_def get_history_def new_history_def)
  have sent: "received (client (snd (query_prompt empty_index_service (fresh_state ''5'')
        ''any concerts?'' ''7'')))
     = [[\<lparr>req_role = ''system'', req_content = ''Output how many events the user wants.''\<rparr>,
         \<lparr>req_role = ''user'', req_content = ''any concerts?''\<rparr>],
        [\<lparr>req_role = ''system'',
          req_content = ''You are an Event Assistant.\<newline>\<newline>No context available.''\<rparr>,
         \<lparr>req_role = ''user'', req_content = ''any concerts?''\<rparr>]]"
    by (simp add: query_prompt_def fresh_state_def example_count empty_index_service_def
        recent combined_context_nothing build_messages_no_context chat_completions_create_def
        or_empty_def sys py_isspace_def Let_def)
  have "\<not> contains_str ''You are an Event Assistant.\<newline>\<newline>No context available.''
         ''no events retrieved''"
    by simp
  with sent show ?thesis by simp
qed

subsection \<open>History updates of a query\<close>

lemma append_history_get:
  "0 < max_messages h \<Longrightarrow>
   fst (get_history (append_history h key r c) key)
     = drop (Suc (length (fst (get_history h key))) - nat (max_messages h))
         (fst (get_history h key) @ [make_message (r, c)])"
  by (simp add: get_history_def append_history_entry py_slice_from_last)

lemma two_appends_get:
  assumes "2 \<le> max_messages h"
  shows "fst (get_history (append_history (append_history h key r1 c1) key r2 c2) key)
     = drop (length (fst (get_history h key)) + 2 - nat (max_messages h)) (fst (get_history h key))
       @ [make_message (r1, c1), make_message (r2, c2)]"
proof -
  let ?old = "fst (get_history h key)"
  let ?m = "nat (max_messages h)"
  have m: "0 < max_messages h" "0 < ?m" "2 \<le> ?m" using assms by simp_all
  have "fst (get_history (append_history (append_history h key r1 c1) key r2 c2) key)
      = drop (Suc (length (?old @ [make_message (r1, c1)])) - ?m)
          ((?old @ [make_message (r1, c1)]) @ [make_message (r2, c2)])"
    using m(1,2) drop_drop_snoc [of ?m "?old @ [make_message (r1, c1)]" "make_message (r2, c2)"]
    by (simp add: append_history_get)
  also have "\<dots> = drop (length ?old + 2 - ?m) ?old
       @ [make_message (r1, c1), make_message (r2, c2)]"
    using m(3) by simp
  finally show ?thesis .
qed

text \<open>
  C3.  Step by step: when the embedding fails, \<^verbatim>\<open>query_prompt\<close> raises that exception
  and changes nothing; when the embedding succeeds and the count extraction raises, or
  these succeed and the search raises, or these succeed and the completion call for the
  built messages raises, it raises that exception and the history repository is what it
  was before the call.  When all of them succeed it returns the trimmed text of the
  response, and with a non-empty session key and a repository present the repository is
  the old one after \<^verbatim>\<open>append(key, "user", prompt)\<close> and then
  \<^verbatim>\<open>append(key, "assistant", answer)\<close>.  By outcome: whenever the call raises the
  repository is unchanged, and whenever it returns an answer with history tracking on,
  the two appends were made; with a capacity of at least two the session's history then
  is the old history, shortened at the front where the capacity requires it, followed by
  exactly these two messages in that order.  Without a session key or without a
  repository nothing is recorded.
\<close>

theorem query_prompt_history:
  "(\<forall>e. embed svc user_prompt = Inl e \<longrightarrow>
       query_prompt svc st user_prompt session_key = (Inl e, st))
   \<and> (\<forall>v e c1. embed svc user_prompt = Inr v
          \<and> extract_requested_event_count (client st) (count_sys_prompt svc) user_prompt
              = (Inl e, c1) \<longrightarrow>
        fst (query_prompt svc st user_prompt session_key) = Inl e
        \<and> history_repo (snd (query_prompt svc st user_prompt session_key)) = history_repo st)
   \<and> (\<forall>v k c1 e. embed svc user_prompt = Inr v
          \<and> extract_requested_event_count (client st) (count_sys_prompt svc) user_prompt
              = (Inr k, c1)
          \<and> search svc v k = Inl e \<longrightarrow>
        fst (query_prompt svc st user_prompt session_key) = Inl e
        \<and> history_repo (snd (query_prompt svc st user_prompt session_key)) = history_repo st)
   \<and> (\<forall>v k c1 events e c2. embed svc user_prompt = Inr v
          \<and> extract_requested_event_count (client st) (count_sys_prompt svc) user_prompt
              = (Inr k, c1)
          \<and> search svc v k = Inr events
          \<and> chat_completions_create c1
               (build_messages (sys_prompt svc)
                  (combined_context (py_join ''\<newline>'' (map format_event events))
                     (recent_messages (max_history_in_context svc) (history_repo st) session_key))
                  user_prompt) = (Inl e, c2) \<longrightarrow>
        fst (query_prompt svc st user_prompt session_key) = Inl e
        \<and> history_repo (snd (query_prompt svc st user_prompt session_key)) = history_repo st)
   \<and> (\<forall>v k c1 events resp c2. embed svc user_prompt = Inr v
          \<and> extract_requested_event_count (client st) (count_sys_prompt svc) user_prompt
              = (Inr k, c1)
          \<and> search svc v k = Inr events
          \<and> chat_completions_create c1
               (build_messages (sys_prompt svc)
                  (combined_context (py_join ''\<newline>'' (map format_event events))
                     (recent_messages (max_history_in_context svc) (history_repo st) session_key))
                  user_prompt) = (Inr resp, c2) \<longrightarrow>
        fst (query_prompt svc st user_prompt session_key) = Inr (strip (answer_text resp))
        \<and> (\<forall>h. session_key \<noteq> [] \<and> history_repo st = Some h \<longrightarrow>
              history_repo (snd (query_prompt svc st user_prompt session_key))
                = Some (append_history (append_history h session_key ''user'' user_prompt)
                          session_key ''assistant'' (strip (answer_text resp)))))
   \<and> (\<forall>e. fst (query_prompt svc st user_prompt session_key) = Inl e \<longrightarrow>
       history_repo (snd (query_prompt svc st user_prompt session_key)) = history_repo st)
   \<and> (\<forall>answer h. fst (query_prompt svc st user_prompt session_key) = Inr answer
          \<and> session_key \<noteq> [] \<and> history_repo st = Some h \<longrightarrow>
        history_repo (snd (query_prompt svc st user_prompt session_key))
          = Some (append_history (append_history h session_key ''user'' user_prompt)
                    session_key ''assistant'' answer)
        \<and> (2 \<le> max_messages h \<longrightarrow>
             fst (get_history
                    (append_history (append_history h session_key ''user'' user_prompt)
                       session_key ''assistant'' answer) session_key)
               = drop (length (fst (get_history h session_key)) + 2 - nat (max_messages h))
                   (fst (get_history h session_key))
                 @ [make_message (''user'', user_prompt), make_message (''assistant'', answer)]))
   \<and> (session_key = [] \<or> history_repo st = None \<longrightarrow>
        history_repo (snd (query_prompt svc st user_prompt session_key)) = history_repo st)"
proof (intro conjI allI impI)
  fix e
  assume "embed svc user_prompt = Inl e"
  then show "query_prompt svc st user_prompt session_key = (Inl e, st)"
    by (simp add: query_prompt_def)
next
  fix v e c1
  assume a: "embed svc user_prompt = Inr v
          \<and> extract_requested_event_count (client st) (count_sys_prompt svc) user_prompt
              = (Inl e, c1)"
  then show "fst (query_prompt svc st user_prompt session_key) = Inl e"
    by (simp add: query_prompt_def)
  from a show "history_repo (snd (query_prompt svc st user_prompt session_key)) = history_repo st"
    by (simp add: query_prompt_def)
next
  fix v k c1 e
  assume a: "embed svc user_prompt = Inr v
          \<and> extract_requested_event_count (client st) (count_sys_prompt svc) user_prompt
              = (Inr k, c1)
          \<and> search svc v k = Inl e"
  then show "fst (query_prompt svc st user_prompt session_key) = Inl e"
    by (simp add: query_prompt_def)
  from a show "history_repo (snd (query_prompt svc st user_prompt session_key)) = history_repo st"
    by (simp add: query_prompt_def)
next
  fix v k c1 events e c2
  assume a: "embed svc user_prompt = Inr v
          \<and> extract_requested_event_count (client st) (count_sys_prompt svc) user_prompt
              = (Inr k, c1)
          \<and> search svc v k = Inr events
          \<and> chat_completions_create c1
               (build_messages (sys_prompt svc)
                  (combined_context (py_join ''\<newline>'' (map format_event events))
                     (recent_messages (max_history_in_context svc) (history_repo st) session_key))
                  user_prompt) = (Inl e, c2)"
  then show "fst (query_prompt svc st user_prompt session_key) = Inl e"
    by (simp add: query_prompt_def Let_def)
  from a show "history_repo (snd (query_prompt svc st user_prompt session_key)) = history_repo st"
    by (simp add: query_prompt_def Let_def)
next
  fix v k c1 events resp c2
  assume a: "embed svc user_prompt = Inr v
          \<and> extract_requested_event_count (client st) (count_sys_prompt svc) user_prompt
              = (Inr k, c1)
          \<and> search svc v k = Inr events
          \<and> chat_completions_create c1
               (build_messages (sys_prompt svc)
                  (combined_context (py_join ''\<newline>'' (map format_event events))
                     (recent_messages (max_history_in_context svc) (history_repo st) session_key))
                  user_prompt) = (Inr resp, c2)"
  then show "fst (query_prompt svc st user_prompt session_key) = Inr (strip (answer_text resp))"
    by (simp add: query_prompt_def Let_def)
  fix h
  assume "session_key \<noteq> [] \<and> history_repo st = Some h"
  with a show "history_repo (snd (query_prompt svc st user_prompt session_key))
                = Some (append_history (append_history h session_key ''user'' user_prompt)
                          session_key ''assistant'' (strip (answer_text resp)))"
    by (simp add: query_prompt_def Let_def)
next
  fix e
  assume "fst (query_prompt svc st user_prompt session_key) = Inl e"
  then show "history_repo (snd (query_prompt svc st user_prompt session_key)) = history_repo st"
    by (auto simp: query_prompt_def Let_def split: sum.splits prod.splits)
next
  fix answer h
  assume "fst (query_prompt svc st user_prompt session_key) = Inr answer
          \<and> session_key \<noteq> [] \<and> history_repo st = Some h"
  then show "history_repo (snd (query_prompt svc st user_prompt session_key))
          = Some (append_history (append_history h session_key ''user'' user_prompt)
                    session_key ''assistant'' answer)"
    by (auto simp: query_prompt_def Let_def split: sum.splits prod.splits)
next
  fix answer :: string and h :: chat_history
  assume "2 \<le> max_messages h"
  then show "fst (get_history
                    (append_history (append_history h session_key ''user'' user_prompt)
                       session_key ''assistant'' answer) session_key)
               = drop (length (fst (get_history h session_key)) + 2 - nat (max_messages h))
                   (fst (get_history h session_key))
                 @ [make_message (''user'', user_prompt), make_message (''assistant'', answer)]"
    by (rule two_appends_get)
next
  assume "session_key = [] \<or> history_repo st = None"
  then show "history_repo (snd (query_prompt svc st user_prompt session_key)) = history_repo st"
    by (auto simp: query_prompt_def Let_def split: sum.splits prod.splits option.splits)
qed

lemma answer_text_reply: "answer_text (reply txt) = txt"
  by (simp add: answer_text_def reply_def or_empty_def)

theorem query_prompt_history_witness:
  "fst (query_prompt empty_index_service (fresh_state ''5'') ''any concerts?'' ''7'') = Inr ''5''
   \<and> history_repo (snd (query_prompt empty_index_service (fresh_state ''5'') ''any concerts?'' ''7''))
       = Some (append_history (append_history (new_history 50) ''7'' ''user'' ''any concerts?'')
                 ''7'' ''assistant'' ''5'')
   \<and> fst (get_history (append_history (append_history (new_history 50) ''7'' ''user''
            ''any concerts?'') ''7'' ''assistant'' ''5'') ''7'')
       = [make_message (''user'', ''any concerts?''), make_message (''assistant'', ''5'')]
   \<and> fst (query_prompt empty_index_service (fresh_state ''five'') ''any concerts?'' ''7'')
       = Inl ValueError
   \<and> history_repo (snd (query_prompt empty_index_service (fresh_state ''five'')
         ''any concerts?'' ''7'')) = Some (new_history 50)
   \<and> history_repo (snd (query_prompt empty_index_service (fresh_state ''5'')
         ''any concerts?'' [])) = Some (new_history 50)
   \<and> query_prompt (empty_index_service\<lparr>embed := (\<lambda>t. Inl (ProviderError ''down''))\<rparr>)
         (fresh_state ''5'') ''any concerts?'' ''7''
       = (Inl (ProviderError ''down''), fresh_state ''5'')"
proof -
  let ?c1 = "snd (extract_requested_event_count (client (fresh_state ''5''))
      (count_sys_prompt empty_index_service) ''any concerts?'')"
  let ?M = "build_messages (sys_prompt empty_index_service)
      (combined_context (py_join ''\<newline>'' (map format_event ([] :: int event list)))
         (recent_messages (max_history_in_context empty_index_service)
            (history_repo (fresh_state ''5'')) ''7''))
      ''any concerts?''"
  have steps: "embed empty_index_service ''any concerts?'' = Inr 1
      \<and> extract_requested_event_count (client (fresh_state ''5''))
          (count_sys_prompt empty_index_service) ''any concerts?'' = (Inr 5, ?c1)
      \<and> search empty_index_service 1 5 = Inr []
      \<and> chat_completions_create ?c1 ?M
          = (Inr (reply ''5''), snd (chat_completions_create ?c1 ?M))"
    by (simp add: fresh_state_def example_search example_count chat_completions_create_def)
  have bad_steps: "embed empty_index_service ''any concerts?'' = Inr 1
      \<and> extract_requested_event_count (client (fresh_state ''five''))
          (count_sys_prompt empty_index_service) ''any concerts?''
        = (Inl ValueError, snd (extract_requested_event_count (client (fresh_state ''five''))
          (count_sys_prompt empty_index_service) ''any concerts?''))"
    by (simp add: fresh_state_def example_search extract_requested_event_count_def
        chat_completions_create_def fixed_client_def reply_def py_int_examples)
  note t = query_prompt_history [where svc = empty_index_service and st = "fresh_state ''5''"
      and user_prompt = "''any concerts?''" and session_key = "''7''"]
  note t_bad = query_prompt_history [where svc = empty_index_service
      and st = "fresh_state ''five''" and user_prompt = "''any concerts?''"
      and session_key = "''7''"]
  note t_nokey = query_prompt_history [where svc = empty_index_service
      and st = "fresh_state ''5''" and user_prompt = "''any concerts?''" and session_key = "[]"]
  note t_down = query_prompt_history [where
      svc = "empty_index_service\<lparr>embed := (\<lambda>t. Inl (ProviderError ''down''))\<rparr>"
      and st = "fresh_state ''5''" and user_prompt = "''any concerts?''"
      and session_key = "''7''"]
  have ok: "fst (query_prompt empty_index_service (fresh_state ''5'') ''any concerts?'' ''7'')
      = Inr ''5''"
    using t [THEN conjunct2, THEN conjunct2, THEN conjunct2, THEN conjunct2, THEN conjunct1,
        rule_format, OF steps]
    by (simp add: answer_text_reply)
  have bad: "fst (query_prompt empty_index_service (fresh_state ''five'') ''any concerts?'' ''7'')
      = Inl ValueError"
    using t_bad [THEN conjunct2, THEN conjunct1, rule_format, OF bad_steps] by simp
  have down: "query_prompt (empty_index_service\<lparr>embed := (\<lambda>t. Inl (ProviderError ''down''))\<rparr>)
         (fresh_state ''5'') ''any concerts?'' ''7''
       = (Inl (ProviderError ''down''), fresh_state ''5'')"
    using t_down [THEN conjunct1, rule_format, of "ProviderError ''down''"] by simp
  have repo: "history_repo (fresh_state t) = Some (new_history 50)" for t
    by (simp add: fresh_state_def)
  have room: "2 \<le> max_messages (new_history 50)"
    by (simp add: new_history_def)
  have empty: "fst (get_history (new_history 50) ''7'') = []"
    by (simp add: get_history_def new_history_def)
  from ok bad down repo room empty t t_bad t_nokey
  show ?thesis by simp
qed

end
